theory Spec2Isabelle
  imports Complex_Main "HOL-Library.Word"
begin

unbundle bit_operations_syntax

section \<open>Data model\<close>

text \<open>
  The entities of the remote service, with the fields that \<^verbatim>\<open>api_utils.py\<close> reads
  or writes. Field names carry a prefix because several classes share \<^verbatim>\<open>id\<close> and
  \<^verbatim>\<open>name\<close>.
\<close>

record project =
  proj_id :: string
  proj_name :: string

record pipeline =
  pipe_id :: string
  pipe_name :: string
  pipe_project_id :: string

record retriever =
  retr_id :: string
  retr_project_id :: string
  retr_name :: "string option"
  retr_pipelines :: "string list"

datatype pipeline_type = PLAYGROUND | MANAGED

text \<open>An HTTP response as the fetchers read it: status code, body bytes, body text.\<close>

record response =
  status_code :: int
  content :: "8 word list"
  text_of :: string

text \<open>
  The exceptions that can travel through this module. \<open>RetryError\<close> is the wrapper
  that the retry library raises when it does not re-raise the last error itself.
\<close>

datatype exn =
    ApiError int string
  | HTTPStatusError response
  | ValueError string
  | AttributeError string
  | RetryError exn
  | TransportError string

text \<open>The two asset endpoints, with the values interpolated into the path template.\<close>

datatype endpoint =
    PageScreenshots string int
  | PageFigures string int string

record request =
  req_method :: string
  req_base_url :: string
  req_endpoint :: endpoint
  req_params :: "(string \<times> string) list"
  req_headers :: "(string \<times> string) list"
  req_timeout :: nat

text \<open>
  Every call that leaves the process is recorded, in order. A sent request is recorded
  together with what came back.
\<close>

datatype event =
    GetRetriever string string
  | ListRetrievers string string
  | GetProject string
  | ListProjects "string option" "string option"
  | GetPipeline string
  | SearchPipelines string "string option" pipeline_type
  | Send request "exn + response"

text \<open>
  The client is the collaborator: each operation answers from the history of calls made so
  far, so the service may answer the same call differently the second time.
\<close>

record client =
  base_url :: string
  get_headers :: "(string \<times> string) list"
  retrievers_get_retriever :: "event list \<Rightarrow> string \<Rightarrow> string \<Rightarrow> exn + retriever"
  retrievers_list_retrievers :: "event list \<Rightarrow> string \<Rightarrow> string \<Rightarrow> exn + retriever list"
  projects_get_project :: "event list \<Rightarrow> string \<Rightarrow> exn + project"
  projects_list_projects ::
    "event list \<Rightarrow> string option \<Rightarrow> string option \<Rightarrow> exn + project list"
  pipelines_get_pipeline :: "event list \<Rightarrow> string \<Rightarrow> exn + pipeline"
  pipelines_search_pipelines ::
    "event list \<Rightarrow> string \<Rightarrow> string option \<Rightarrow> pipeline_type \<Rightarrow> exn + pipeline list"
  httpx_client_send :: "event list \<Rightarrow> request \<Rightarrow> exn + response"

text \<open>
  The state threaded through every operation: the calls made so far, the source of
  generated identifiers (\<^verbatim>\<open>uuid.uuid4\<close> is the standard library's; its successive
  draws are the values \<open>uuid_source w 0\<close>, \<open>uuid_source w 1\<close>, ...), and the
  choices the event loop will make when several jobs are ready to run.
\<close>

record world =
  trace :: "event list"
  uuid_source :: "nat \<Rightarrow> string"
  uuid_drawn :: nat
  schedule :: "nat list"

type_synonym 'a io = "world \<Rightarrow> (exn + 'a) \<times> world"

definition record_call :: "event \<Rightarrow> world \<Rightarrow> world" where
  "record_call ev w = w\<lparr>trace := trace w @ [ev]\<rparr>"

definition uuid4 :: "world \<Rightarrow> string \<times> world" where
  "uuid4 w = (uuid_source w (uuid_drawn w), w\<lparr>uuid_drawn := Suc (uuid_drawn w)\<rparr>)"

section \<open>Retry policy\<close>

definition is_retryable_http_error :: "exn \<Rightarrow> bool" where
  "is_retryable_http_error exception =
     (case exception of
        ApiError status body \<Rightarrow> 500 \<le> status \<and> status < 600
      | HTTPStatusError resp \<Rightarrow> 500 \<le> status_code resp \<and> status_code resp < 600
      | _ \<Rightarrow> False)"

text \<open>
  The retry library's loop, with the three settings the decorator passes: the attempt at
  which to stop, the predicate that says which errors are retried, and whether the last
  error is re-raised as it is. Attempts are numbered from 1. The waiting between attempts
  (a randomised floating-point delay) has no effect on any value and is left out.
\<close>

function retrying :: "nat \<Rightarrow> (exn \<Rightarrow> bool) \<Rightarrow> bool \<Rightarrow> 'a io \<Rightarrow> nat \<Rightarrow> 'a io" where
  "retrying stop_after retry_if reraise fn attempt_number w =
     (case fn w of
        (Inr v, w') \<Rightarrow> (Inr v, w')
      | (Inl e, w') \<Rightarrow>
          if \<not> retry_if e then (Inl e, w')
          else if stop_after \<le> attempt_number
            then (if reraise then Inl e else Inl (RetryError e), w')
          else retrying stop_after retry_if reraise fn (Suc attempt_number) w')"
  by pat_completeness auto
termination
  by (relation "measure (\<lambda>(stop_after, retry_if, reraise, fn, attempt_number, w).
        stop_after - attempt_number)") auto

declare retrying.simps [simp del]

definition retry_on_failure :: "'a io \<Rightarrow> 'a io" where
  "retry_on_failure func = retrying 5 is_retryable_http_error True func 1"

section \<open>Entity resolver\<close>

text \<open>The typed operations of the client: ask the service, record the call.\<close>

definition get_retriever :: "client \<Rightarrow> string \<Rightarrow> string \<Rightarrow> retriever io" where
  "get_retriever c retriever_id project_id w =
     (retrievers_get_retriever c (trace w) retriever_id project_id,
      record_call (GetRetriever retriever_id project_id) w)"

definition list_retrievers :: "client \<Rightarrow> string \<Rightarrow> string \<Rightarrow> retriever list io" where
  "list_retrievers c project_id name w =
     (retrievers_list_retrievers c (trace w) project_id name,
      record_call (ListRetrievers project_id name) w)"

definition get_project :: "client \<Rightarrow> string \<Rightarrow> project io" where
  "get_project c project_id w =
     (projects_get_project c (trace w) project_id, record_call (GetProject project_id) w)"

definition list_projects :: "client \<Rightarrow> string option \<Rightarrow> string option \<Rightarrow> project list io" where
  "list_projects c project_name organization_id w =
     (projects_list_projects c (trace w) project_name organization_id,
      record_call (ListProjects project_name organization_id) w)"

definition get_pipeline :: "client \<Rightarrow> string \<Rightarrow> pipeline io" where
  "get_pipeline c pipeline_id w =
     (pipelines_get_pipeline c (trace w) pipeline_id, record_call (GetPipeline pipeline_id) w)"

definition search_pipelines ::
  "client \<Rightarrow> string \<Rightarrow> string option \<Rightarrow> pipeline_type \<Rightarrow> pipeline list io" where
  "search_pipelines c project_id pipeline_name ptype w =
     (pipelines_search_pipelines c (trace w) project_id pipeline_name ptype,
      record_call (SearchPipelines project_id pipeline_name ptype) w)"

text \<open>
  Python's truth test on an optional string: \<^verbatim>\<open>None\<close> and the empty string are
  both false. The result is the string when the test succeeds.
\<close>

definition truthy :: "string option \<Rightarrow> string option" where
  "truthy x = (case x of None \<Rightarrow> None | Some s \<Rightarrow> if s = [] then None else Some s)"

text \<open>What an f-string prints for an optional string.\<close>

definition fmt :: "string option \<Rightarrow> string" where
  "fmt x = (case x of None \<Rightarrow> ''None'' | Some s \<Rightarrow> s)"

definition resolve_retriever ::
  "client \<Rightarrow> project \<Rightarrow> string option \<Rightarrow> string option \<Rightarrow> bool \<Rightarrow> retriever option io" where
  "resolve_retriever c proj retriever_name retriever_id persisted w =
     (if \<not> persisted then
        (case uuid4 w of (u, w') \<Rightarrow>
           (Inr (Some \<lparr>retr_id = u, retr_project_id = proj_id proj,
                       retr_name = retriever_name, retr_pipelines = []\<rparr>), w'))
      else case truthy retriever_id of
        Some rid \<Rightarrow>
          (case get_retriever c rid (proj_id proj) w of
             (Inl e, w') \<Rightarrow> (Inl e, w')
           | (Inr r, w') \<Rightarrow> (Inr (Some r), w'))
      | None \<Rightarrow>
          (case truthy retriever_name of
             Some rname \<Rightarrow>
               (case list_retrievers c (proj_id proj) rname w of
                  (Inl e, w') \<Rightarrow> (Inl e, w')
                | (Inr retrievers, w') \<Rightarrow>
                    (Inr (find (\<lambda>r. retr_name r = retriever_name) retrievers), w'))
           | None \<Rightarrow> (Inr None, w)))"

definition resolve_project ::
  "client \<Rightarrow> string option \<Rightarrow> string option \<Rightarrow> string option \<Rightarrow> project io" where
  "resolve_project c project_name project_id organization_id w =
     (case project_id of
        Some pid \<Rightarrow> get_project c pid w
      | None \<Rightarrow>
          (case list_projects c project_name organization_id w of
             (Inl e, w') \<Rightarrow> (Inl e, w')
           | (Inr projects, w') \<Rightarrow>
               if length projects = 0 then
                 (Inl (ValueError (''No project found with name '' @ fmt project_name)), w')
               else if length projects > 1 then
                 (Inl (ValueError (''Multiple projects found with name '' @ fmt project_name
                    @ ''. Please specify organization_id.'')), w')
               else (Inr (projects ! 0), w')))"

definition resolve_pipeline ::
  "client \<Rightarrow> string option \<Rightarrow> project option \<Rightarrow> string option \<Rightarrow> pipeline io" where
  "resolve_pipeline c pipeline_id proj pipeline_name w =
     (case pipeline_id of
        Some pid \<Rightarrow> get_pipeline c pid w
      | None \<Rightarrow>
          (case proj of
             None \<Rightarrow> (Inl (AttributeError ''id''), w)
           | Some p \<Rightarrow>
               (case search_pipelines c (proj_id p) pipeline_name MANAGED w of
                  (Inl e, w') \<Rightarrow> (Inl e, w')
                | (Inr pipelines, w') \<Rightarrow>
                    if length pipelines = 0 then
                      (Inl (ValueError (''Unknown index name '' @ fmt pipeline_name
                         @ ''. Please confirm an index with this name exists.'')), w')
                    else if length pipelines > 1 then
                      (Inl (ValueError (''Multiple pipelines found with name ''
                         @ fmt pipeline_name @ '' in project '' @ proj_name p)), w')
                    else (Inr (pipelines ! 0), w'))))"

text \<open>
  The combined resolver. The local variables \<^verbatim>\<open>pipeline\<close> and \<^verbatim>\<open>project_id\<close>
  are assigned in the first block only when a pipeline id is given; the pair below carries
  them to the second block.
\<close>

definition resolve_project_and_pipeline ::
  "client \<Rightarrow> string option \<Rightarrow> string option \<Rightarrow> string option \<Rightarrow> string option
     \<Rightarrow> string option \<Rightarrow> (project \<times> pipeline) io" where
  "resolve_project_and_pipeline c pipeline_name pipeline_id project_name project_id
       organization_id w =
     (case (case pipeline_id of
              Some pid \<Rightarrow>
                (case resolve_pipeline c (Some pid) None None w of
                   (Inl e, w1) \<Rightarrow> (Inl e, w1)
                 | (Inr pl, w1) \<Rightarrow> (Inr (Some pl, Some (pipe_project_id pl)), w1))
            | None \<Rightarrow> (Inr (None, project_id), w)) of
        (Inl e, w1) \<Rightarrow> (Inl e, w1)
      | (Inr (pipeline0, project_id'), w1) \<Rightarrow>
          (case resolve_project c project_name project_id' organization_id w1 of
             (Inl e, w2) \<Rightarrow> (Inl e, w2)
           | (Inr proj, w2) \<Rightarrow>
               (case pipeline0 of
                  Some pl \<Rightarrow> (Inr (proj, pl), w2)
                | None \<Rightarrow>
                    (case resolve_pipeline c None (Some proj) pipeline_name w2 of
                       (Inl e, w3) \<Rightarrow> (Inl e, w3)
                     | (Inr pl, w3) \<Rightarrow> (Inr (proj, pl), w3)))))"

section \<open>Asset fetcher\<close>

definition build_get_page_screenshot_request ::
  "client \<Rightarrow> string \<Rightarrow> int \<Rightarrow> string \<Rightarrow> request" where
  "build_get_page_screenshot_request c file_id page_index project_id =
     \<lparr>req_method = ''GET'', req_base_url = base_url c,
      req_endpoint = PageScreenshots file_id page_index,
      req_params = [(''project_id'', project_id)],
      req_headers = get_headers c, req_timeout = 60\<rparr>"

definition build_get_page_figure_request ::
  "client \<Rightarrow> string \<Rightarrow> int \<Rightarrow> string \<Rightarrow> string \<Rightarrow> request" where
  "build_get_page_figure_request c file_id page_index figure_name project_id =
     \<lparr>req_method = ''GET'', req_base_url = base_url c,
      req_endpoint = PageFigures file_id page_index figure_name,
      req_params = [(''project_id'', project_id)],
      req_headers = get_headers c, req_timeout = 60\<rparr>"

definition send :: "client \<Rightarrow> request \<Rightarrow> response io" where
  "send c req w =
     (let r = httpx_client_send c (trace w) req in (r, record_call (Send req r) w))"

text \<open>
  The body that all four fetchers share after building their request: send it, return the
  bytes on a 2xx status, raise the structured error otherwise.
\<close>

definition fetch_once :: "client \<Rightarrow> request \<Rightarrow> 8 word list io" where
  "fetch_once c req w =
     (case send c req w of
        (Inl e, w') \<Rightarrow> (Inl e, w')
      | (Inr resp, w') \<Rightarrow>
          if 200 \<le> status_code resp \<and> status_code resp < 300 then (Inr (content resp), w')
          else (Inl (ApiError (status_code resp) (text_of resp)), w'))"

definition get_page_screenshot :: "client \<Rightarrow> string \<Rightarrow> int \<Rightarrow> string \<Rightarrow> 8 word list io" where
  "get_page_screenshot c file_id page_index project_id =
     retry_on_failure
       (fetch_once c (build_get_page_screenshot_request c file_id page_index project_id))"

definition get_page_figure ::
  "client \<Rightarrow> string \<Rightarrow> int \<Rightarrow> string \<Rightarrow> string \<Rightarrow> 8 word list io" where
  "get_page_figure c file_id page_index figure_name project_id =
     retry_on_failure
       (fetch_once c
          (build_get_page_figure_request c file_id page_index figure_name project_id))"

definition aget_page_screenshot :: "client \<Rightarrow> string \<Rightarrow> int \<Rightarrow> string \<Rightarrow> 8 word list io" where
  "aget_page_screenshot c file_id page_index project_id =
     retry_on_failure
       (fetch_once c (build_get_page_screenshot_request c file_id page_index project_id))"

definition aget_page_figure ::
  "client \<Rightarrow> string \<Rightarrow> int \<Rightarrow> string \<Rightarrow> string \<Rightarrow> 8 word list io" where
  "aget_page_figure c file_id page_index figure_name project_id =
     retry_on_failure
       (fetch_once c
          (build_get_page_figure_request c file_id page_index figure_name project_id))"

section \<open>Result adapter\<close>

datatype pyval = PyStr string | PyInt int

record page_screenshot_node =
  s_file_id :: string
  s_page_index :: int
  s_metadata :: "(string \<rightharpoonup> pyval) option"

record page_screenshot_node_with_score =
  s_node :: page_screenshot_node
  s_score :: real

record page_figure_node =
  f_file_id :: string
  f_page_index :: int
  f_figure_name :: string
  f_metadata :: "(string \<rightharpoonup> pyval) option"

record page_figure_node_with_score =
  f_node :: page_figure_node
  f_score :: real

record image_node =
  image :: string
  metadata :: "string \<rightharpoonup> pyval"

record node_with_score =
  node :: image_node
  score :: real

text \<open>\<^verbatim>\<open>base64.b64encode\<close> of the standard library: the standard alphabet, padded.\<close>

definition b64_alphabet :: string where
  "b64_alphabet = ''ABCDEFGHIJKLMNOPQRSTUVWXYZabcdefghijklmnopqrstuvwxyz0123456789+/''"

definition b64_char :: "8 word \<Rightarrow> char" where
  "b64_char x = b64_alphabet ! unat (x AND 63)"

fun b64encode :: "8 word list \<Rightarrow> string" where
  "b64encode [] = []"
| "b64encode [a] =
     [b64_char (drop_bit 2 a), b64_char (push_bit 4 (a AND 3)), CHR ''='', CHR ''='']"
| "b64encode [a, b] =
     [b64_char (drop_bit 2 a), b64_char (push_bit 4 (a AND 3) OR drop_bit 4 b),
      b64_char (push_bit 2 (b AND 15)), CHR ''='']"
| "b64encode (a # b # c # rest) =
     [b64_char (drop_bit 2 a), b64_char (push_bit 4 (a AND 3) OR drop_bit 4 b),
      b64_char (push_bit 2 (b AND 15) OR drop_bit 6 c), b64_char (c AND 63)]
     @ b64encode rest"

text \<open>\<^verbatim>\<open>metadata or {}\<close>: an absent mapping counts as the empty one.\<close>

definition or_empty :: "(string \<rightharpoonup> pyval) option \<Rightarrow> (string \<rightharpoonup> pyval)" where
  "or_empty m = (case m of None \<Rightarrow> Map.empty | Some d \<Rightarrow> d)"

text \<open>
  The node built for one record from the bytes fetched for it. In the dictionary display
  the later keys overwrite earlier ones of the same name.
\<close>

definition screenshot_node_with_score ::
  "page_screenshot_node_with_score \<Rightarrow> 8 word list \<Rightarrow> node_with_score" where
  "screenshot_node_with_score raw_image_node image_bytes =
     \<lparr>node = \<lparr>image = b64encode image_bytes,
               metadata = (or_empty (s_metadata (s_node raw_image_node)))
                 (''file_id'' \<mapsto> PyStr (s_file_id (s_node raw_image_node)),
                  ''page_index'' \<mapsto> PyInt (s_page_index (s_node raw_image_node)))\<rparr>,
      score = s_score raw_image_node\<rparr>"

definition figure_node_with_score ::
  "page_figure_node_with_score \<Rightarrow> 8 word list \<Rightarrow> node_with_score" where
  "figure_node_with_score raw_figure_node figure_bytes =
     \<lparr>node = \<lparr>image = b64encode figure_bytes,
               metadata = (or_empty (f_metadata (f_node raw_figure_node)))
                 (''file_id'' \<mapsto> PyStr (f_file_id (f_node raw_figure_node)),
                  ''page_index'' \<mapsto> PyInt (f_page_index (f_node raw_figure_node)),
                  ''figure_name'' \<mapsto> PyStr (f_figure_name (f_node raw_figure_node)))\<rparr>,
      score = f_score raw_figure_node\<rparr>"

text \<open>The synchronous loops: one fetch per record, in order; an error ends the loop.\<close>

fun screenshot_loop ::
  "client \<Rightarrow> string \<Rightarrow> page_screenshot_node_with_score list \<Rightarrow> node_with_score list
     \<Rightarrow> node_with_score list io" where
  "screenshot_loop c project_id [] image_nodes w = (Inr image_nodes, w)"
| "screenshot_loop c project_id (raw_image_node # rest) image_nodes w =
     (case get_page_screenshot c (s_file_id (s_node raw_image_node))
             (s_page_index (s_node raw_image_node)) project_id w of
        (Inl e, w') \<Rightarrow> (Inl e, w')
      | (Inr image_bytes, w') \<Rightarrow>
          screenshot_loop c project_id rest
            (image_nodes @ [screenshot_node_with_score raw_image_node image_bytes]) w')"

definition page_screenshot_nodes_to_node_with_score ::
  "client \<Rightarrow> page_screenshot_node_with_score list option \<Rightarrow> string
     \<Rightarrow> node_with_score list io" where
  "page_screenshot_nodes_to_node_with_score c raw_image_nodes project_id w =
     (case raw_image_nodes of
        None \<Rightarrow> (Inr [], w)
      | Some raws \<Rightarrow>
          if raws = [] then (Inr [], w) else screenshot_loop c project_id raws [] w)"

definition image_nodes_to_node_with_score ::
  "client \<Rightarrow> page_screenshot_node_with_score list option \<Rightarrow> string
     \<Rightarrow> node_with_score list io" where
  "image_nodes_to_node_with_score c raw_image_nodes project_id w =
     (case raw_image_nodes of
        None \<Rightarrow> (Inr [], w)
      | Some raws \<Rightarrow>
          if raws = [] then (Inr [], w)
          else page_screenshot_nodes_to_node_with_score c raw_image_nodes project_id w)"

fun figure_loop ::
  "client \<Rightarrow> string \<Rightarrow> page_figure_node_with_score list \<Rightarrow> node_with_score list
     \<Rightarrow> node_with_score list io" where
  "figure_loop c project_id [] figure_nodes w = (Inr figure_nodes, w)"
| "figure_loop c project_id (raw_figure_node # rest) figure_nodes w =
     (case get_page_figure c (f_file_id (f_node raw_figure_node))
             (f_page_index (f_node raw_figure_node))
             (f_figure_name (f_node raw_figure_node)) project_id w of
        (Inl e, w') \<Rightarrow> (Inl e, w')
      | (Inr figure_bytes, w') \<Rightarrow>
          figure_loop c project_id rest
            (figure_nodes @ [figure_node_with_score raw_figure_node figure_bytes]) w')"

definition page_figure_nodes_to_node_with_score ::
  "client \<Rightarrow> page_figure_node_with_score list option \<Rightarrow> string
     \<Rightarrow> node_with_score list io" where
  "page_figure_nodes_to_node_with_score c raw_figure_nodes project_id w =
     (case raw_figure_nodes of
        None \<Rightarrow> (Inr [], w)
      | Some raws \<Rightarrow>
          if raws = [] then (Inr [], w) else figure_loop c project_id raws [] w)"

text \<open>
  Modelled from the spec: \<^verbatim>\<open>run_jobs\<close> of \<^verbatim>\<open>llama_index.core.async_utils\<close> is
  not among the sources. The spec describes it as a job runner that "accepts a list of
  independent asynchronous tasks, returns their results in the same order, with an
  internally bounded concurrency level". Here every job runs once, to its end, in an order
  that the event loop chooses: at each step the head of \<open>schedule\<close> selects one of the
  jobs still pending. Each result is stored under the position of its job, and the results
  are read out by position. The first job that raises ends the run with its error.
\<close>

function run_pending ::
  "(nat \<times> 'a io) list \<Rightarrow> (nat \<times> 'a) list \<Rightarrow> world \<Rightarrow> (exn + (nat \<times> 'a) list) \<times> world" where
  "run_pending pending finished w =
     (if pending = [] then (Inr finished, w)
      else
        let k = (case schedule w of [] \<Rightarrow> 0 | x # _ \<Rightarrow> x mod length pending);
            w0 = w\<lparr>schedule := tl (schedule w)\<rparr>
        in (case snd (pending ! k) w0 of
              (Inl e, w') \<Rightarrow> (Inl e, w')
            | (Inr v, w') \<Rightarrow>
                run_pending (take k pending @ drop (Suc k) pending)
                  (finished @ [(fst (pending ! k), v)]) w'))"
  by pat_completeness auto
termination
proof (relation "measure (\<lambda>(pending, finished, w). length pending)")
  show "wf (measure (\<lambda>(pending, finished, w). length pending))"
    by simp
next
  fix pending :: "(nat \<times> 'a io) list" and finished :: "(nat \<times> 'a) list" and w :: world
    and k :: nat and w0 x1 x2 v
  assume ne: "pending \<noteq> []"
    and k: "k = (case schedule w of [] \<Rightarrow> 0 | x # xa \<Rightarrow> x mod length pending)"
  from ne have "0 < length pending" by simp
  then have "k < length pending"
    using k by (simp split: list.splits)
  then show "((take k pending @ drop (Suc k) pending, finished @ [(fst (pending ! k), v)], x2),
              (pending, finished, w)) \<in> measure (\<lambda>(pending, finished, w). length pending)"
    by simp
qed

declare run_pending.simps [simp del]

text \<open>
  Modelled from the spec: \<^verbatim>\<open>run_jobs\<close> itself, which "returns their results in the
  same order": all jobs are run as above and the stored results are read out by position,
  from the first job's to the last's.
\<close>

definition run_jobs :: "'a io list \<Rightarrow> 'a list io" where
  "run_jobs jobs w =
     (case run_pending (zip [0..<length jobs] jobs) [] w of
        (Inl e, w') \<Rightarrow> (Inl e, w')
      | (Inr finished, w') \<Rightarrow> (Inr (List.map_filter (map_of finished) [0..<length jobs]), w'))"

definition apage_screenshot_nodes_to_node_with_score ::
  "client \<Rightarrow> page_screenshot_node_with_score list option \<Rightarrow> string
     \<Rightarrow> node_with_score list io" where
  "apage_screenshot_nodes_to_node_with_score c raw_image_nodes project_id w =
     (case raw_image_nodes of
        None \<Rightarrow> (Inr [], w)
      | Some raws \<Rightarrow>
          if raws = [] then (Inr [], w)
          else
            let tasks = map (\<lambda>raw_image_node.
                  aget_page_screenshot c (s_file_id (s_node raw_image_node))
                    (s_page_index (s_node raw_image_node)) project_id) raws
            in (case run_jobs tasks w of
                  (Inl e, w') \<Rightarrow> (Inl e, w')
                | (Inr image_bytes_list, w') \<Rightarrow>
                    (Inr (map (\<lambda>(image_bytes, raw_image_node).
                             screenshot_node_with_score raw_image_node image_bytes)
                           (zip image_bytes_list raws)), w')))"

definition aimage_nodes_to_node_with_score ::
  "client \<Rightarrow> page_screenshot_node_with_score list option \<Rightarrow> string
     \<Rightarrow> node_with_score list io" where
  "aimage_nodes_to_node_with_score c raw_image_nodes project_id w =
     (case raw_image_nodes of
        None \<Rightarrow> (Inr [], w)
      | Some raws \<Rightarrow>
          if raws = [] then (Inr [], w)
          else apage_screenshot_nodes_to_node_with_score c raw_image_nodes project_id w)"

definition apage_figure_nodes_to_node_with_score ::
  "client \<Rightarrow> page_figure_node_with_score list option \<Rightarrow> string
     \<Rightarrow> node_with_score list io" where
  "apage_figure_nodes_to_node_with_score c raw_figure_nodes project_id w =
     (case raw_figure_nodes of
        None \<Rightarrow> (Inr [], w)
      | Some raws \<Rightarrow>
          if raws = [] then (Inr [], w)
          else
            let tasks = map (\<lambda>raw_figure_node.
                  aget_page_figure c (f_file_id (f_node raw_figure_node))
                    (f_page_index (f_node raw_figure_node))
                    (f_figure_name (f_node raw_figure_node)) project_id) raws
            in (case run_jobs tasks w of
                  (Inl e, w') \<Rightarrow> (Inl e, w')
                | (Inr figure_bytes_list, w') \<Rightarrow>
                    (Inr (map (\<lambda>(figure_bytes, raw_figure_node).
                             figure_node_with_score raw_figure_node figure_bytes)
                           (zip figure_bytes_list raws)), w')))"

section \<open>Observations used in the properties\<close>

text \<open>
  The world in which attempt number \<open>k + 1\<close> of a retried call starts, the outcome of that
  attempt, and whether an outcome is an error that the policy retries.
\<close>

primrec after_attempts :: "'a io \<Rightarrow> nat \<Rightarrow> world \<Rightarrow> world" where
  "after_attempts fn 0 w = w"
| "after_attempts fn (Suc k) w = after_attempts fn k (snd (fn w))"

definition attempt_outcome :: "'a io \<Rightarrow> nat \<Rightarrow> world \<Rightarrow> (exn + 'a) \<times> world" where
  "attempt_outcome fn k w = fn (after_attempts fn k w)"

definition raises_retryable :: "(exn + 'a) \<times> world \<Rightarrow> bool" where
  "raises_retryable r = (case fst r of Inl e \<Rightarrow> is_retryable_http_error e | Inr v \<Rightarrow> False)"


text \<open>The calls made between two worlds.\<close>

definition new_events :: "world \<Rightarrow> world \<Rightarrow> event list" where
  "new_events w w' = drop (length (trace w)) (trace w')"

text \<open>A job only ever adds to the record of calls.\<close>

definition grows :: "'a io \<Rightarrow> bool" where
  "grows job = (\<forall>w. \<exists>ys. trace (snd (job w)) = trace w @ ys)"

text \<open>The calls that list or search by name.\<close>

definition is_listing :: "event \<Rightarrow> bool" where
  "is_listing ev =
     (case ev of ListRetrievers pid n \<Rightarrow> True | ListProjects n org \<Rightarrow> True
      | SearchPipelines pid n t \<Rightarrow> True | _ \<Rightarrow> False)"

section \<open>Concrete values for the instances\<close>

text \<open>
  A world with nothing recorded yet, one entity of each kind, and a client whose typed
  operations answer with them; its transport is a parameter.
\<close>

definition demo_world :: world where
  "demo_world = \<lparr>trace = [], uuid_source = (\<lambda>n. replicate (Suc n) CHR ''u''),
                  uuid_drawn = 0, schedule = [1]\<rparr>"

definition demo_retriever :: retriever where
  "demo_retriever = \<lparr>retr_id = ''r-1'', retr_project_id = ''p-1'',
                      retr_name = Some ''docs'', retr_pipelines = [''pl-1'']\<rparr>"

definition demo_project :: project where
  "demo_project = \<lparr>proj_id = ''p-1'', proj_name = ''main''\<rparr>"

definition demo_pipeline :: pipeline where
  "demo_pipeline = \<lparr>pipe_id = ''pl-1'', pipe_name = ''index'', pipe_project_id = ''p-1''\<rparr>"

definition answer :: "int \<Rightarrow> 8 word list \<Rightarrow> string \<Rightarrow> response" where
  "answer st bytes txt = \<lparr>status_code = st, content = bytes, text_of = txt\<rparr>"

definition demo_client :: "(event list \<Rightarrow> request \<Rightarrow> exn + response) \<Rightarrow> client" where
  "demo_client transport =
     \<lparr>base_url = ''https://api.example'', get_headers = [(''Authorization'', ''Bearer k'')],
      retrievers_get_retriever = (\<lambda>h rid pid. Inl (ApiError 404 ''no retriever'')),
      retrievers_list_retrievers = (\<lambda>h pid n. Inr [demo_retriever]),
      projects_get_project = (\<lambda>h pid. Inr demo_project),
      projects_list_projects = (\<lambda>h n org. Inr [demo_project]),
      pipelines_get_pipeline = (\<lambda>h pid. Inr demo_pipeline),
      pipelines_search_pipelines = (\<lambda>h pid n t. Inr [demo_pipeline]),
      httpx_client_send = transport\<rparr>"


text \<open>Transports: one that never connects, one that always gives the same answer.\<close>

definition offline :: "event list \<Rightarrow> request \<Rightarrow> exn + response" where
  "offline h r = Inl (TransportError ''offline'')"

definition always :: "response \<Rightarrow> event list \<Rightarrow> request \<Rightarrow> exn + response" where
  "always resp h r = Inr resp"

text \<open>Clients whose listings are empty, or hold two entries.\<close>

definition nothing_listed :: client where
  "nothing_listed = (demo_client offline)
     \<lparr>projects_list_projects := (\<lambda>h n org. Inr []),
      pipelines_search_pipelines := (\<lambda>h pid n t. Inr [])\<rparr>"

definition twice_listed :: client where
  "twice_listed = (demo_client offline)
     \<lparr>projects_list_projects := (\<lambda>h n org. Inr [demo_project, demo_project\<lparr>proj_id := ''p-2''\<rparr>]),
      pipelines_search_pipelines :=
        (\<lambda>h pid n t. Inr [demo_pipeline, demo_pipeline\<lparr>pipe_id := ''pl-2''\<rparr>])\<rparr>"

definition demo_request :: request where
  "demo_request = build_get_page_screenshot_request (demo_client offline) ''f-1'' 0 ''p-1''"

text \<open>
  A transport that is busy at the very first request and afterwards answers 200 with bytes
  that depend on the page asked for; two screenshot records and two figure records, one of
  each with metadata that already holds a derived key; and what their conversion yields when
  the event loop runs the second job first.
\<close>

definition serve :: "event list \<Rightarrow> request \<Rightarrow> exn + response" where
  "serve h r =
     (if h = [] then Inr (answer 503 [] ''busy'')
      else Inr (answer 200
             (case req_endpoint r of
                PageScreenshots f i \<Rightarrow> [word_of_int i]
              | PageFigures f i n \<Rightarrow> [word_of_int i, 255]) ''''))"

definition demo_screens :: "page_screenshot_node_with_score list" where
  "demo_screens =
     [\<lparr>s_node = \<lparr>s_file_id = ''f-1'', s_page_index = 0, s_metadata = None\<rparr>, s_score = 1 / 2\<rparr>,
      \<lparr>s_node = \<lparr>s_file_id = ''f-2'', s_page_index = 1,
                 s_metadata = Some [''file_id'' \<mapsto> PyStr ''stale'', ''lang'' \<mapsto> PyStr ''en'']\<rparr>,
       s_score = 1 / 4\<rparr>]"

definition screen_request :: "string \<Rightarrow> int \<Rightarrow> request" where
  "screen_request f i = build_get_page_screenshot_request (demo_client serve) f i ''p-1''"

definition demo_screen_nodes :: "node_with_score list" where
  "demo_screen_nodes =
     [screenshot_node_with_score (demo_screens ! 0) [0],
      screenshot_node_with_score (demo_screens ! 1) [1]]"

definition demo_screen_world :: world where
  "demo_screen_world =
     demo_world\<lparr>trace :=
         [Send (screen_request ''f-2'' 1) (Inr (answer 503 [] ''busy'')),
          Send (screen_request ''f-2'' 1) (Inr (answer 200 [1] '''')),
          Send (screen_request ''f-1'' 0) (Inr (answer 200 [0] ''''))],
       schedule := []\<rparr>"

definition demo_figures :: "page_figure_node_with_score list" where
  "demo_figures =
     [\<lparr>f_node = \<lparr>f_file_id = ''f-1'', f_page_index = 2, f_figure_name = ''chart'',
                 f_metadata = Some [''figure_name'' \<mapsto> PyStr ''stale'']\<rparr>, f_score = 3 / 4\<rparr>,
      \<lparr>f_node = \<lparr>f_file_id = ''f-2'', f_page_index = 3, f_figure_name = ''map'',
                 f_metadata = None\<rparr>, f_score = 1 / 4\<rparr>]"

definition figure_request :: "string \<Rightarrow> int \<Rightarrow> string \<Rightarrow> request" where
  "figure_request f i n = build_get_page_figure_request (demo_client serve) f i n ''p-1''"

definition demo_figure_nodes :: "node_with_score list" where
  "demo_figure_nodes =
     [figure_node_with_score (demo_figures ! 0) [2, 255],
      figure_node_with_score (demo_figures ! 1) [3, 255]]"

definition demo_figure_world :: world where
  "demo_figure_world =
     demo_world\<lparr>trace :=
         [Send (figure_request ''f-2'' 3 ''map'') (Inr (answer 503 [] ''busy'')),
          Send (figure_request ''f-2'' 3 ''map'') (Inr (answer 200 [3, 255] '''')),
          Send (figure_request ''f-1'' 2 ''chart'') (Inr (answer 200 [2, 255] ''''))],
       schedule := []\<rparr>"

section \<open>Properties of the retry policy\<close>

lemma attempt_outcome_0: "attempt_outcome fn 0 w = fn w"
  by (simp add: attempt_outcome_def)

lemma attempt_outcome_Suc: "attempt_outcome fn (Suc k) w = attempt_outcome fn k (snd (fn w))"
  by (simp add: attempt_outcome_def)

lemma retrying_stop:
  "\<not> raises_retryable (fn w) \<Longrightarrow> retrying m is_retryable_http_error True fn a w = fn w"
  by (subst retrying.simps) (auto simp: raises_retryable_def split: prod.splits sum.splits)

lemma retrying_last:
  "m \<le> a \<Longrightarrow> retrying m is_retryable_http_error True fn a w = fn w"
  by (subst retrying.simps) (auto split: prod.splits sum.splits)

lemma retrying_again:
  "raises_retryable (fn w) \<Longrightarrow> a < m \<Longrightarrow>
   retrying m is_retryable_http_error True fn a w
     = retrying m is_retryable_http_error True fn (Suc a) (snd (fn w))"
  by (subst retrying.simps) (auto simp: raises_retryable_def split: prod.splits sum.splits)

lemma retrying_outcome:
  "\<exists>n\<le>m - a. retrying m is_retryable_http_error True fn a w = attempt_outcome fn n w
      \<and> (\<forall>k<n. raises_retryable (attempt_outcome fn k w))
      \<and> (n < m - a \<longrightarrow> \<not> raises_retryable (attempt_outcome fn n w))"
proof (induction "m - a" arbitrary: a w)
  case 0
  then have "retrying m is_retryable_http_error True fn a w = attempt_outcome fn 0 w"
    by (simp add: retrying_last attempt_outcome_0)
  then show ?case using 0 by auto
next
  case (Suc d)
  show ?case
  proof (cases "raises_retryable (fn w)")
    case False
    then have "retrying m is_retryable_http_error True fn a w = attempt_outcome fn 0 w"
      by (simp add: retrying_stop attempt_outcome_0)
    with False show ?thesis
      by (intro exI [of _ 0]) (simp add: attempt_outcome_0)
  next
    case True
    from Suc.hyps(2) have lt: "a < m" and d: "d = m - Suc a" by arith+
    from Suc.hyps(1) [OF d, of "snd (fn w)"] obtain n where n: "n \<le> m - Suc a"
      and eq: "retrying m is_retryable_http_error True fn (Suc a) (snd (fn w))
                 = attempt_outcome fn n (snd (fn w))"
      and before: "\<forall>k<n. raises_retryable (attempt_outcome fn k (snd (fn w)))"
      and stop: "n < m - Suc a \<longrightarrow> \<not> raises_retryable (attempt_outcome fn n (snd (fn w)))"
      by blast
    have "retrying m is_retryable_http_error True fn a w = attempt_outcome fn (Suc n) w"
      using True lt eq by (simp add: retrying_again attempt_outcome_Suc)
    moreover have "\<forall>k<Suc n. raises_retryable (attempt_outcome fn k w)"
    proof (intro allI impI)
      fix k assume "k < Suc n"
      then show "raises_retryable (attempt_outcome fn k w)"
        using True before by (cases k) (simp_all add: attempt_outcome_0 attempt_outcome_Suc)
    qed
    moreover have "Suc n < m - a \<longrightarrow> \<not> raises_retryable (attempt_outcome fn (Suc n) w)"
      using stop by (auto simp: attempt_outcome_Suc)
    moreover have "Suc n \<le> m - a" using n lt by arith
    ultimately show ?thesis by blast
  qed
qed

lemma retry_on_failure_stop:
  "\<not> raises_retryable (fn w) \<Longrightarrow> retry_on_failure fn w = fn w"
  by (simp add: retry_on_failure_def retrying_stop)

text \<open>
  Claim C6. A call wrapped by \<open>retry_on_failure\<close> is attempted \<open>n\<close> times for some
  \<open>n\<close> between 1 and 5: every attempt before the last raised an error that
  \<open>is_retryable_http_error\<close> accepts, the loop stops before the fifth attempt only on
  an outcome that is not such an error, and what the wrapped call gives back (value or error,
  and the world it leaves) is exactly the outcome of the last attempt. Hence an error that
  is not retryable at the first attempt is the result after that one attempt, and five
  retryable errors in a row give the fifth error itself, which is not a wrapper.
\<close>

theorem retry_on_failure_policy:
  "(\<exists>n. 1 \<le> n \<and> n \<le> 5 \<and> retry_on_failure fn w = attempt_outcome fn (n - 1) w
       \<and> (\<forall>k<n - 1. raises_retryable (attempt_outcome fn k w))
       \<and> (n < 5 \<longrightarrow> \<not> raises_retryable (attempt_outcome fn (n - 1) w)))
   \<and> (\<not> raises_retryable (attempt_outcome fn 0 w) \<longrightarrow> retry_on_failure fn w = fn w)
   \<and> ((\<forall>k<5. raises_retryable (attempt_outcome fn k w))
        \<longrightarrow> retry_on_failure fn w = attempt_outcome fn 4 w
          \<and> (\<exists>e. fst (retry_on_failure fn w) = Inl e \<and> is_retryable_http_error e))"
proof (intro conjI impI)
  from retrying_outcome [of 5 1 fn w] obtain n where n: "n \<le> 4"
    and eq: "retry_on_failure fn w = attempt_outcome fn n w"
    and before: "\<forall>k<n. raises_retryable (attempt_outcome fn k w)"
    and stop: "n < 4 \<longrightarrow> \<not> raises_retryable (attempt_outcome fn n w)"
    by (auto simp: retry_on_failure_def)
  then show "\<exists>n. 1 \<le> n \<and> n \<le> 5 \<and> retry_on_failure fn w = attempt_outcome fn (n - 1) w
       \<and> (\<forall>k<n - 1. raises_retryable (attempt_outcome fn k w))
       \<and> (n < 5 \<longrightarrow> \<not> raises_retryable (attempt_outcome fn (n - 1) w))"
    by (intro exI [of _ "Suc n"]) simp
next
  assume "\<not> raises_retryable (attempt_outcome fn 0 w)"
  then show "retry_on_failure fn w = fn w"
    by (simp add: retry_on_failure_def retrying_stop attempt_outcome_0)
next
  assume all: "\<forall>k<5. raises_retryable (attempt_outcome fn k w)"
  from retrying_outcome [of 5 1 fn w] obtain n where n: "n \<le> 4"
    and eq: "retry_on_failure fn w = attempt_outcome fn n w"
    and stop: "n < 4 \<longrightarrow> \<not> raises_retryable (attempt_outcome fn n w)"
    by (auto simp: retry_on_failure_def)
  from all stop n have "n = 4" by (cases "n < 4") auto
  with eq show eq4: "retry_on_failure fn w = attempt_outcome fn 4 w" by simp
  from all have "raises_retryable (attempt_outcome fn 4 w)" by simp
  with eq4 show "\<exists>e. fst (retry_on_failure fn w) = Inl e \<and> is_retryable_http_error e"
    by (auto simp: raises_retryable_def split: sum.splits)
qed

text \<open>
  Two instances: a service that always answers 503 is asked five times and the 503 error
  comes out as it is; a service that answers 404 is asked once.
\<close>

theorem retry_on_failure_policy_witness:
  "retry_on_failure
      (fetch_once (demo_client (always (answer 503 [] ''busy''))) demo_request) demo_world
     = (Inl (ApiError 503 ''busy''),
        demo_world\<lparr>trace := replicate 5 (Send demo_request (Inr (answer 503 [] ''busy'')))\<rparr>)
   \<and> retry_on_failure
      (fetch_once (demo_client (always (answer 404 [] ''missing''))) demo_request) demo_world
     = (Inl (ApiError 404 ''missing''),
        demo_world\<lparr>trace := [Send demo_request (Inr (answer 404 [] ''missing''))]\<rparr>)"
proof -
  let ?busy = "fetch_once (demo_client (always (answer 503 [] ''busy''))) demo_request"
  let ?missing = "fetch_once (demo_client (always (answer 404 [] ''missing''))) demo_request"
  have busy: "?busy w = (Inl (ApiError 503 ''busy''),
      record_call (Send demo_request (Inr (answer 503 [] ''busy''))) w)" for w
    by (simp add: fetch_once_def send_def demo_client_def answer_def always_def Let_def)
  have missing: "?missing w = (Inl (ApiError 404 ''missing''),
      record_call (Send demo_request (Inr (answer 404 [] ''missing''))) w)" for w
    by (simp add: fetch_once_def send_def demo_client_def answer_def always_def Let_def)
  have "\<forall>k<5. raises_retryable (attempt_outcome ?busy k demo_world)"
    by (simp add: attempt_outcome_def raises_retryable_def busy is_retryable_http_error_def)
  with retry_on_failure_policy [of ?busy demo_world]
  have "retry_on_failure ?busy demo_world = attempt_outcome ?busy 4 demo_world"
    by blast
  then have first: "retry_on_failure ?busy demo_world
     = (Inl (ApiError 503 ''busy''),
        demo_world\<lparr>trace := replicate 5 (Send demo_request (Inr (answer 503 [] ''busy'')))\<rparr>)"
    by (simp add: attempt_outcome_def eval_nat_numeral busy record_call_def demo_world_def)
  have "\<not> raises_retryable (attempt_outcome ?missing 0 demo_world)"
    by (simp add: attempt_outcome_def raises_retryable_def missing is_retryable_http_error_def)
  with retry_on_failure_policy [of ?missing demo_world]
  have "retry_on_failure ?missing demo_world = ?missing demo_world"
    by blast
  then have second: "retry_on_failure ?missing demo_world
     = (Inl (ApiError 404 ''missing''),
        demo_world\<lparr>trace := [Send demo_request (Inr (answer 404 [] ''missing''))]\<rparr>)"
    by (simp add: missing record_call_def demo_world_def)
  from first second show ?thesis by simp
qed

text \<open>
  Claim C7. \<open>is_retryable_http_error\<close> is true exactly for a structured API error or an
  HTTP-status error whose status code is between 500 and 599 inclusive: true at 500 and 599,
  false at 499 and 600, false for every other kind of exception.
\<close>

theorem is_retryable_http_error_iff:
  "(is_retryable_http_error e \<longleftrightarrow>
      (\<exists>s. ((\<exists>b. e = ApiError s b) \<or> (\<exists>r. e = HTTPStatusError r \<and> status_code r = s))
           \<and> 500 \<le> s \<and> s \<le> 599))
   \<and> is_retryable_http_error (ApiError 500 b) \<and> is_retryable_http_error (ApiError 599 b)
   \<and> \<not> is_retryable_http_error (ApiError 499 b) \<and> \<not> is_retryable_http_error (ApiError 600 b)
   \<and> is_retryable_http_error (HTTPStatusError (r\<lparr>status_code := 500\<rparr>))
   \<and> is_retryable_http_error (HTTPStatusError (r\<lparr>status_code := 599\<rparr>))
   \<and> \<not> is_retryable_http_error (HTTPStatusError (r\<lparr>status_code := 499\<rparr>))
   \<and> \<not> is_retryable_http_error (HTTPStatusError (r\<lparr>status_code := 600\<rparr>))
   \<and> \<not> is_retryable_http_error (ValueError m) \<and> \<not> is_retryable_http_error (AttributeError m)
   \<and> \<not> is_retryable_http_error (RetryError x) \<and> \<not> is_retryable_http_error (TransportError m)"
  by (cases e) (auto simp: is_retryable_http_error_def)


section \<open>Properties of the entity resolver\<close>

lemma new_events_record_call [simp]: "new_events w (record_call ev w) = [ev]"
  by (simp add: new_events_def record_call_def)

lemma new_events_same [simp]: "new_events w w = []"
  by (simp add: new_events_def)

text \<open>
  Claim C1. With a pipeline id, \<open>resolve_project_and_pipeline\<close> fetches the pipeline by
  that id, then fetches the project whose id is the pipeline's \<open>project_id\<close>, whatever
  project id or name the caller gave, and asks nothing else: when both fetches succeed the
  two recorded calls are exactly these and the pair is (project, pipeline). Without a
  pipeline id it resolves the project first and then the pipeline by name inside that
  project. An error of any step is the result.
\<close>

theorem resolve_project_and_pipeline_order:
  "resolve_project_and_pipeline c pipeline_name (Some pid) project_name project_id
       organization_id w =
     (case get_pipeline c pid w of
        (Inl e, w1) \<Rightarrow> (Inl e, w1)
      | (Inr pl, w1) \<Rightarrow>
          (case get_project c (pipe_project_id pl) w1 of
             (Inl e, w2) \<Rightarrow> (Inl e, w2)
           | (Inr proj, w2) \<Rightarrow> (Inr (proj, pl), w2)))
   \<and> resolve_project_and_pipeline c pipeline_name None project_name project_id
       organization_id w =
     (case resolve_project c project_name project_id organization_id w of
        (Inl e, w1) \<Rightarrow> (Inl e, w1)
      | (Inr proj, w1) \<Rightarrow>
          (case resolve_pipeline c None (Some proj) pipeline_name w1 of
             (Inl e, w2) \<Rightarrow> (Inl e, w2)
           | (Inr pl, w2) \<Rightarrow> (Inr (proj, pl), w2)))
   \<and> (pipelines_get_pipeline c (trace w) pid = Inr pl
        \<and> projects_get_project c (trace w @ [GetPipeline pid]) (pipe_project_id pl) = Inr proj
      \<longrightarrow> resolve_project_and_pipeline c pipeline_name (Some pid) project_name project_id
            organization_id w
          = (Inr (proj, pl),
             w\<lparr>trace := trace w @ [GetPipeline pid, GetProject (pipe_project_id pl)]\<rparr>))"
  by (auto simp: resolve_project_and_pipeline_def resolve_pipeline_def resolve_project_def
        get_pipeline_def get_project_def record_call_def
      split: prod.splits sum.splits option.splits)

text \<open>
  An instance: the caller names another project by id and by name; the project of the
  pipeline is the one fetched.
\<close>

theorem resolve_project_and_pipeline_order_witness:
  "resolve_project_and_pipeline (demo_client offline) (Some ''other'') (Some ''pl-1'')
       (Some ''elsewhere'') (Some ''p-9'') None demo_world
     = (Inr (demo_project, demo_pipeline),
        demo_world\<lparr>trace := trace demo_world @ [GetPipeline ''pl-1'', GetProject ''p-1'']\<rparr>)"
proof -
  have a: "pipelines_get_pipeline (demo_client offline) (trace demo_world) ''pl-1''
      = Inr demo_pipeline"
    by (simp add: demo_client_def)
  have b: "projects_get_project (demo_client offline) (trace demo_world @ [GetPipeline ''pl-1''])
      (pipe_project_id demo_pipeline) = Inr demo_project"
    by (simp add: demo_client_def)
  have c: "pipe_project_id demo_pipeline = ''p-1''"
    by (simp add: demo_pipeline_def)
  from a b resolve_project_and_pipeline_order
          [where c = "demo_client offline" and w = demo_world and pid = "''pl-1''"
             and pl = demo_pipeline and proj = demo_project
             and pipeline_name = "Some ''other''" and project_name = "Some ''elsewhere''"
             and project_id = "Some ''p-9''" and organization_id = None]
  have "resolve_project_and_pipeline (demo_client offline) (Some ''other'') (Some ''pl-1'')
       (Some ''elsewhere'') (Some ''p-9'') None demo_world
     = (Inr (demo_project, demo_pipeline),
        demo_world\<lparr>trace := trace demo_world
           @ [GetPipeline ''pl-1'', GetProject (pipe_project_id demo_pipeline)]\<rparr>)"
    by blast
  then show ?thesis by (simp only: c)
qed

text \<open>
  Claim C3. On the name path (no id given), when the listing answers: no match raises a
  value error whose message contains the requested name, two or more matches raise a value
  error that names the ambiguity, and exactly one match is returned. The name appears in
  the message as an f-string prints it.
\<close>

theorem resolve_by_name_matches:
  "(projects_list_projects c (trace w) project_name organization_id = Inr [] \<longrightarrow>
      resolve_project c project_name None organization_id w =
        (Inl (ValueError (''No project found with name '' @ fmt project_name)),
         record_call (ListProjects project_name organization_id) w))
   \<and> (projects_list_projects c (trace w) project_name organization_id = Inr projects
        \<and> 2 \<le> length projects \<longrightarrow>
      resolve_project c project_name None organization_id w =
        (Inl (ValueError (''Multiple projects found with name '' @ fmt project_name
                @ ''. Please specify organization_id.'')),
         record_call (ListProjects project_name organization_id) w))
   \<and> (projects_list_projects c (trace w) project_name organization_id = Inr [only_project] \<longrightarrow>
      resolve_project c project_name None organization_id w =
        (Inr only_project, record_call (ListProjects project_name organization_id) w))
   \<and> (pipelines_search_pipelines c (trace w) (proj_id proj) pipeline_name MANAGED = Inr []
      \<longrightarrow> resolve_pipeline c None (Some proj) pipeline_name w =
        (Inl (ValueError (''Unknown index name '' @ fmt pipeline_name
                @ ''. Please confirm an index with this name exists.'')),
         record_call (SearchPipelines (proj_id proj) pipeline_name MANAGED) w))
   \<and> (pipelines_search_pipelines c (trace w) (proj_id proj) pipeline_name MANAGED
          = Inr pipelines \<and> 2 \<le> length pipelines
      \<longrightarrow> resolve_pipeline c None (Some proj) pipeline_name w =
        (Inl (ValueError (''Multiple pipelines found with name '' @ fmt pipeline_name
                @ '' in project '' @ proj_name proj)),
         record_call (SearchPipelines (proj_id proj) pipeline_name MANAGED) w))
   \<and> (pipelines_search_pipelines c (trace w) (proj_id proj) pipeline_name MANAGED
          = Inr [only_pipeline]
      \<longrightarrow> resolve_pipeline c None (Some proj) pipeline_name w =
        (Inr only_pipeline, record_call (SearchPipelines (proj_id proj) pipeline_name MANAGED) w))
   \<and> fmt (Some name) = name"
  by (auto simp: resolve_project_def resolve_pipeline_def list_projects_def
        search_pipelines_def fmt_def
      split: prod.splits sum.splits option.splits)

theorem resolve_by_name_matches_witness:
  "resolve_project nothing_listed (Some ''main'') None None demo_world =
     (Inl (ValueError ''No project found with name main''),
      record_call (ListProjects (Some ''main'') None) demo_world)
   \<and> resolve_project twice_listed (Some ''main'') None None demo_world =
     (Inl (ValueError ''Multiple projects found with name main. Please specify organization_id.''),
      record_call (ListProjects (Some ''main'') None) demo_world)
   \<and> resolve_project (demo_client offline) (Some ''main'') None None demo_world =
     (Inr demo_project, record_call (ListProjects (Some ''main'') None) demo_world)
   \<and> resolve_pipeline nothing_listed None (Some demo_project) (Some ''index'') demo_world =
     (Inl (ValueError
        ''Unknown index name index. Please confirm an index with this name exists.''),
      record_call (SearchPipelines ''p-1'' (Some ''index'') MANAGED) demo_world)
   \<and> resolve_pipeline twice_listed None (Some demo_project) (Some ''index'') demo_world =
     (Inl (ValueError ''Multiple pipelines found with name index in project main''),
      record_call (SearchPipelines ''p-1'' (Some ''index'') MANAGED) demo_world)
   \<and> resolve_pipeline (demo_client offline) None (Some demo_project) (Some ''index'')
       demo_world =
     (Inr demo_pipeline, record_call (SearchPipelines ''p-1'' (Some ''index'') MANAGED) demo_world)"
  using resolve_by_name_matches
          [where c = nothing_listed and w = demo_world and project_name = "Some ''main''"
             and organization_id = None and proj = demo_project
             and pipeline_name = "Some ''index''"]
        resolve_by_name_matches
          [where c = twice_listed and w = demo_world and project_name = "Some ''main''"
             and organization_id = None and proj = demo_project
             and pipeline_name = "Some ''index''"
             and projects = "[demo_project, demo_project\<lparr>proj_id := ''p-2''\<rparr>]"
             and pipelines = "[demo_pipeline, demo_pipeline\<lparr>pipe_id := ''pl-2''\<rparr>]"]
        resolve_by_name_matches
          [where c = "demo_client offline" and w = demo_world
             and project_name = "Some ''main''"
             and organization_id = None and proj = demo_project
             and pipeline_name = "Some ''index''"
             and only_project = demo_project and only_pipeline = demo_pipeline]
  by (simp add: nothing_listed_def twice_listed_def demo_client_def demo_project_def fmt_def)

text \<open>
  Claim C8, as amended. A project id or a pipeline id that is given (not \<open>None\<close>) makes
  the resolver perform the fetch by id and nothing else. For a persisted retriever the same
  holds for an id that is given and not the empty string. A listing or search call is made
  only when the id is absent, or, for the retriever, absent or empty.
\<close>

theorem resolve_by_id_only:
  "resolve_project c project_name (Some pid) organization_id w = get_project c pid w
   \<and> new_events w (snd (resolve_project c project_name (Some pid) organization_id w))
       = [GetProject pid]
   \<and> resolve_pipeline c (Some plid) proj pipeline_name w = get_pipeline c plid w
   \<and> new_events w (snd (resolve_pipeline c (Some plid) proj pipeline_name w))
       = [GetPipeline plid]
   \<and> (rid \<noteq> [] \<longrightarrow>
        new_events w (snd (resolve_retriever c p retriever_name (Some rid) True w))
          = [GetRetriever rid (proj_id p)])
   \<and> (list_ex is_listing
          (new_events w (snd (resolve_project c project_name project_id organization_id w)))
        \<longrightarrow> project_id = None)
   \<and> (list_ex is_listing
          (new_events w (snd (resolve_pipeline c pipeline_id proj pipeline_name w)))
        \<longrightarrow> pipeline_id = None)
   \<and> (list_ex is_listing
          (new_events w (snd (resolve_retriever c p retriever_name retriever_id True w)))
        \<longrightarrow> retriever_id = None \<or> retriever_id = Some [])"
  by (auto simp: resolve_project_def resolve_pipeline_def resolve_retriever_def
        get_project_def get_pipeline_def get_retriever_def list_retrievers_def truthy_def
        is_listing_def
      split: prod.splits sum.splits option.splits if_splits)

theorem resolve_by_id_only_witness:
  "new_events demo_world
     (snd (resolve_retriever (demo_client offline) demo_project (Some ''docs'') (Some ''r-1'')
        True demo_world)) = [GetRetriever ''r-1'' ''p-1'']
   \<and> list_ex is_listing (new_events demo_world
        (snd (resolve_project (demo_client offline) (Some ''main'') None None demo_world)))
   \<and> list_ex is_listing (new_events demo_world
        (snd (resolve_pipeline (demo_client offline) None (Some demo_project) (Some ''index'')
           demo_world)))
   \<and> list_ex is_listing (new_events demo_world
        (snd (resolve_retriever (demo_client offline) demo_project (Some ''docs'') None True
           demo_world)))"
  using resolve_by_id_only [of "demo_client offline" "Some ''main''" "''p-1''" None demo_world
      "''pl-1''" "Some demo_project" "Some ''index''" "''r-1''" demo_project "Some ''docs''"
      None None None]
  by (simp add: demo_project_def resolve_project_def resolve_pipeline_def
        resolve_retriever_def list_projects_def search_pipelines_def list_retrievers_def
        truthy_def is_listing_def demo_client_def)

text \<open>
  The claim as stated fails for the retriever: an id that is given as the empty string is
  not fetched, the retrievers are listed by name instead.
\<close>

theorem empty_retriever_id_lists:
  "new_events demo_world
     (snd (resolve_retriever (demo_client offline) demo_project (Some ''notes'') (Some '''')
        True demo_world)) = [ListRetrievers ''p-1'' ''notes'']"
  by (simp add: resolve_retriever_def truthy_def list_retrievers_def demo_client_def
        demo_project_def)

text \<open>
  Claim C4, as amended. Not persisted: the result is a local retriever with the next
  generated id, the project's id, the requested name and no pipelines, and no call is
  recorded; two such calls in a row give different ids when the id generator never repeats
  a value. Persisted: a non-empty id is fetched; otherwise a non-empty name is listed and the
  first listed retriever with exactly that name is returned, or \<open>None\<close> when there is
  none; with neither a non-empty id nor a non-empty name the result is \<open>None\<close>.
\<close>

theorem resolve_retriever_cases:
  "resolve_retriever c p retriever_name retriever_id False w =
     (Inr (Some \<lparr>retr_id = uuid_source w (uuid_drawn w), retr_project_id = proj_id p,
                  retr_name = retriever_name, retr_pipelines = []\<rparr>),
      w\<lparr>uuid_drawn := Suc (uuid_drawn w)\<rparr>)
   \<and> (inj (uuid_source w)
        \<and> resolve_retriever c p retriever_name retriever_id False w = (Inr (Some ra), wa)
        \<and> resolve_retriever c' p' retriever_name' retriever_id' False wa = (Inr (Some rb), wb)
      \<longrightarrow> retr_id ra \<noteq> retr_id rb)
   \<and> (rid \<noteq> [] \<longrightarrow>
        resolve_retriever c p retriever_name (Some rid) True w =
          (case get_retriever c rid (proj_id p) w of
             (Inl e, w') \<Rightarrow> (Inl e, w')
           | (Inr r, w') \<Rightarrow> (Inr (Some r), w')))
   \<and> ((retriever_id = None \<or> retriever_id = Some []) \<and> rname \<noteq> []
        \<and> retrievers_list_retrievers c (trace w) (proj_id p) rname = Inr retrievers
      \<longrightarrow> resolve_retriever c p (Some rname) retriever_id True w =
            (Inr (find (\<lambda>r. retr_name r = Some rname) retrievers),
             record_call (ListRetrievers (proj_id p) rname) w)
          \<and> (find (\<lambda>r. retr_name r = Some rname) retrievers = None
               \<longleftrightarrow> \<not> list_ex (\<lambda>r. retr_name r = Some rname) retrievers))
   \<and> ((retriever_id = None \<or> retriever_id = Some [])
        \<and> (retriever_name = None \<or> retriever_name = Some [])
      \<longrightarrow> resolve_retriever c p retriever_name retriever_id True w = (Inr None, w))"
proof (intro conjI impI)
  show "resolve_retriever c p retriever_name retriever_id False w =
     (Inr (Some \<lparr>retr_id = uuid_source w (uuid_drawn w), retr_project_id = proj_id p,
                  retr_name = retriever_name, retr_pipelines = []\<rparr>),
      w\<lparr>uuid_drawn := Suc (uuid_drawn w)\<rparr>)"
    by (simp add: resolve_retriever_def uuid4_def)
next
  assume a: "inj (uuid_source w)
        \<and> resolve_retriever c p retriever_name retriever_id False w = (Inr (Some ra), wa)
        \<and> resolve_retriever c' p' retriever_name' retriever_id' False wa = (Inr (Some rb), wb)"
  then have "retr_id ra = uuid_source w (uuid_drawn w)"
    and "retr_id rb = uuid_source w (Suc (uuid_drawn w))"
    by (auto simp: resolve_retriever_def uuid4_def)
  moreover from a have "uuid_source w (uuid_drawn w) \<noteq> uuid_source w (Suc (uuid_drawn w))"
    by (auto dest: injD)
  ultimately show "retr_id ra \<noteq> retr_id rb" by simp
next
  assume "rid \<noteq> []"
  then show "resolve_retriever c p retriever_name (Some rid) True w =
          (case get_retriever c rid (proj_id p) w of
             (Inl e, w') \<Rightarrow> (Inl e, w')
           | (Inr r, w') \<Rightarrow> (Inr (Some r), w'))"
    by (simp add: resolve_retriever_def truthy_def)
next
  assume a: "(retriever_id = None \<or> retriever_id = Some []) \<and> rname \<noteq> []
        \<and> retrievers_list_retrievers c (trace w) (proj_id p) rname = Inr retrievers"
  then show "resolve_retriever c p (Some rname) retriever_id True w =
            (Inr (find (\<lambda>r. retr_name r = Some rname) retrievers),
             record_call (ListRetrievers (proj_id p) rname) w)"
    by (auto simp: resolve_retriever_def truthy_def list_retrievers_def)
  show "find (\<lambda>r. retr_name r = Some rname) retrievers = None
               \<longleftrightarrow> \<not> list_ex (\<lambda>r. retr_name r = Some rname) retrievers"
    by (auto simp: find_None_iff list_ex_iff)
next
  assume "(retriever_id = None \<or> retriever_id = Some [])
        \<and> (retriever_name = None \<or> retriever_name = Some [])"
  then show "resolve_retriever c p retriever_name retriever_id True w = (Inr None, w)"
    by (auto simp: resolve_retriever_def truthy_def)
qed

theorem resolve_retriever_cases_witness:
  "resolve_retriever (demo_client offline) demo_project (Some ''docs'') None True demo_world
     = (Inr (Some demo_retriever), record_call (ListRetrievers ''p-1'' ''docs'') demo_world)
   \<and> resolve_retriever (demo_client offline) demo_project (Some ''notes'') None True demo_world
     = (Inr None, record_call (ListRetrievers ''p-1'' ''notes'') demo_world)
   \<and> resolve_retriever (demo_client offline) demo_project None None True demo_world
     = (Inr None, demo_world)
   \<and> resolve_retriever (demo_client offline) demo_project (Some ''docs'') (Some ''r-1'') True
       demo_world
     = (Inl (ApiError 404 ''no retriever''),
        record_call (GetRetriever ''r-1'' ''p-1'') demo_world)
   \<and> retr_id (the (projr (fst (resolve_retriever (demo_client offline) demo_project
          (Some ''docs'') None False demo_world))))
     \<noteq> retr_id (the (projr (fst (resolve_retriever (demo_client offline) demo_project
          (Some ''docs'') None False
          (snd (resolve_retriever (demo_client offline) demo_project (Some ''docs'') None
             False demo_world))))))"
proof -
  let ?c = "demo_client offline"
  have inj: "inj (uuid_source demo_world)"
    by (auto simp: demo_world_def inj_on_def)
  have listed: "retrievers_list_retrievers ?c (trace demo_world) (proj_id demo_project) n
      = Inr [demo_retriever]" for n
    by (simp add: demo_client_def)
  note inst = resolve_retriever_cases [where c = "?c" and p = demo_project and w = demo_world]
  from inst [where retriever_id = None and rname = "''docs''" and retrievers = "[demo_retriever]"]
    listed
  have a: "resolve_retriever ?c demo_project (Some ''docs'') None True demo_world
     = (Inr (Some demo_retriever), record_call (ListRetrievers ''p-1'' ''docs'') demo_world)"
    by (simp add: demo_retriever_def demo_project_def)
  from inst [where retriever_id = None and rname = "''notes''"
              and retrievers = "[demo_retriever]"] listed
  have b: "resolve_retriever ?c demo_project (Some ''notes'') None True demo_world
     = (Inr None, record_call (ListRetrievers ''p-1'' ''notes'') demo_world)"
    by (simp add: demo_retriever_def demo_project_def)
  from inst [where retriever_id = None and retriever_name = None]
  have c: "resolve_retriever ?c demo_project None None True demo_world = (Inr None, demo_world)"
    by simp
  from inst [where rid = "''r-1''" and retriever_name = "Some ''docs''"]
  have d: "resolve_retriever ?c demo_project (Some ''docs'') (Some ''r-1'') True demo_world
     = (Inl (ApiError 404 ''no retriever''),
        record_call (GetRetriever ''r-1'' ''p-1'') demo_world)"
    by (simp add: get_retriever_def demo_client_def demo_project_def)
  obtain r1 w1 where r1: "resolve_retriever ?c demo_project (Some ''docs'') None False
      demo_world = (Inr (Some r1), w1)"
    using inst [where retriever_name = "Some ''docs''" and retriever_id = None] by blast
  obtain r2 w2 where r2: "resolve_retriever ?c demo_project (Some ''docs'') None False w1
      = (Inr (Some r2), w2)"
    using resolve_retriever_cases [where c = "?c" and p = demo_project and w = w1
        and retriever_name = "Some ''docs''" and retriever_id = None] by blast
  from inst [where retriever_name = "Some ''docs''" and retriever_id = None
      and ra = r1 and wa = w1 and c' = "?c" and p' = demo_project
      and retriever_name' = "Some ''docs''" and retriever_id' = None and rb = r2 and wb = w2]
    inj r1 r2
  have "retr_id r1 \<noteq> retr_id r2" by blast
  with r1 r2 a b c d show ?thesis by simp
qed

text \<open>
  The claim as stated fails where the id is given as the empty string: the retriever is
  looked up by name, although a fetch by that id would have raised.
\<close>

theorem empty_retriever_id_not_fetched:
  "resolve_retriever (demo_client offline) demo_project (Some ''docs'') (Some '''') True
       demo_world
     = (Inr (Some demo_retriever), record_call (ListRetrievers ''p-1'' ''docs'') demo_world)
   \<and> get_retriever (demo_client offline) '''' ''p-1'' demo_world
     = (Inl (ApiError 404 ''no retriever''), record_call (GetRetriever '''' ''p-1'') demo_world)"
  by (simp add: resolve_retriever_def truthy_def list_retrievers_def get_retriever_def
        demo_client_def demo_project_def demo_retriever_def)

text \<open>
  Claim C10. With \<open>persisted\<close> false a supplied retriever id has no effect: the result
  is the one obtained without an id, no call is recorded, and the retriever returned carries
  the next generated id, which differs from the supplied id whenever the generator does not
  produce the supplied id.
\<close>

theorem resolve_retriever_not_persisted:
  "resolve_retriever c p retriever_name (Some rid) False w
     = resolve_retriever c p retriever_name None False w
   \<and> trace (snd (resolve_retriever c p retriever_name (Some rid) False w)) = trace w
   \<and> (\<exists>r. fst (resolve_retriever c p retriever_name (Some rid) False w) = Inr (Some r)
          \<and> retr_id r = uuid_source w (uuid_drawn w)
          \<and> retr_project_id r = proj_id p \<and> retr_name r = retriever_name
          \<and> retr_pipelines r = []
          \<and> ((\<forall>n. uuid_source w n \<noteq> rid) \<longrightarrow> retr_id r \<noteq> rid))"
  by (simp add: resolve_retriever_def uuid4_def)

theorem resolve_retriever_not_persisted_witness:
  "fst (resolve_retriever (demo_client offline) demo_project (Some ''docs'') (Some ''r-1'')
        False demo_world)
     = Inr (Some \<lparr>retr_id = ''u'', retr_project_id = ''p-1'', retr_name = Some ''docs'',
                  retr_pipelines = []\<rparr>)
   \<and> trace (snd (resolve_retriever (demo_client offline) demo_project (Some ''docs'')
        (Some ''r-1'') False demo_world)) = []"
proof -
  have fresh: "\<forall>n. uuid_source demo_world n \<noteq> ''r-1''"
    by (simp add: demo_world_def)
  from fresh resolve_retriever_not_persisted
          [where c = "demo_client offline" and p = demo_project and w = demo_world
             and retriever_name = "Some ''docs''" and rid = "''r-1''"]
  obtain r where "fst (resolve_retriever (demo_client offline) demo_project (Some ''docs'')
        (Some ''r-1'') False demo_world) = Inr (Some r)"
    and "retr_id r = uuid_source demo_world (uuid_drawn demo_world)"
    and "retr_project_id r = proj_id demo_project" and "retr_name r = Some ''docs''"
    and "retr_pipelines r = []" and "retr_id r \<noteq> ''r-1''"
    and "trace (snd (resolve_retriever (demo_client offline) demo_project (Some ''docs'')
        (Some ''r-1'') False demo_world)) = trace demo_world"
    by blast
  then show ?thesis
    by (cases r) (simp add: demo_world_def demo_project_def)
qed

section \<open>Properties of the asset fetcher\<close>

lemma fetch_once_response:
  "httpx_client_send c (trace w) req = Inr resp \<Longrightarrow>
   fetch_once c req w =
     (if 200 \<le> status_code resp \<and> status_code resp \<le> 299 then Inr (content resp)
      else Inl (ApiError (status_code resp) (text_of resp)),
      record_call (Send req (Inr resp)) w)"
  by (simp add: fetch_once_def send_def Let_def)

lemma fetch_once_not_5xx:
  "httpx_client_send c (trace w) req = Inr resp \<Longrightarrow>
   \<not> (500 \<le> status_code resp \<and> status_code resp \<le> 599) \<Longrightarrow>
   retry_on_failure (fetch_once c req) w =
     (if 200 \<le> status_code resp \<and> status_code resp \<le> 299 then Inr (content resp)
      else Inl (ApiError (status_code resp) (text_of resp)),
      record_call (Send req (Inr resp)) w)"
  by (subst retry_on_failure_stop)
     (auto simp: fetch_once_response raises_retryable_def is_retryable_http_error_def)

text \<open>
  Claim C5. Each of the four fetchers is the retried form of one attempt that sends the
  request and, for whatever response arrives, returns the body bytes when the status is
  between 200 and 299 and raises the structured API error with that status and the body text
  otherwise. When the status is not a 5xx one, that value or error is the fetcher's result
  after the single request; a 5xx status raises the same kind of error, which the policy
  retries.
\<close>

theorem fetch_status_conversion:
  "(httpx_client_send c (trace w) req = Inr resp \<longrightarrow>
      fetch_once c req w =
        (if 200 \<le> status_code resp \<and> status_code resp \<le> 299 then Inr (content resp)
         else Inl (ApiError (status_code resp) (text_of resp)),
         record_call (Send req (Inr resp)) w))
   \<and> get_page_screenshot c file_id page_index project_id =
       retry_on_failure
         (fetch_once c (build_get_page_screenshot_request c file_id page_index project_id))
   \<and> aget_page_screenshot c file_id page_index project_id =
       retry_on_failure
         (fetch_once c (build_get_page_screenshot_request c file_id page_index project_id))
   \<and> get_page_figure c file_id page_index figure_name project_id =
       retry_on_failure
         (fetch_once c
            (build_get_page_figure_request c file_id page_index figure_name project_id))
   \<and> aget_page_figure c file_id page_index figure_name project_id =
       retry_on_failure
         (fetch_once c
            (build_get_page_figure_request c file_id page_index figure_name project_id))
   \<and> (httpx_client_send c (trace w) req = Inr resp
        \<and> \<not> (500 \<le> status_code resp \<and> status_code resp \<le> 599) \<longrightarrow>
      retry_on_failure (fetch_once c req) w =
        (if 200 \<le> status_code resp \<and> status_code resp \<le> 299 then Inr (content resp)
         else Inl (ApiError (status_code resp) (text_of resp)),
         record_call (Send req (Inr resp)) w))
   \<and> (httpx_client_send c (trace w) req = Inr resp
        \<and> 500 \<le> status_code resp \<and> status_code resp \<le> 599 \<longrightarrow>
      raises_retryable (fetch_once c req w))"
  using fetch_once_response [of c w req resp] fetch_once_not_5xx [of c w req resp]
  by (auto simp: get_page_screenshot_def aget_page_screenshot_def get_page_figure_def
        aget_page_figure_def raises_retryable_def is_retryable_http_error_def)

theorem fetch_status_conversion_witness:
  "get_page_screenshot (demo_client (always (answer 404 [] ''missing''))) ''f-1'' 0 ''p-1''
       demo_world
     = (Inl (ApiError 404 ''missing''),
        record_call (Send demo_request (Inr (answer 404 [] ''missing''))) demo_world)
   \<and> aget_page_screenshot (demo_client (always (answer 200 [1, 2] ''''))) ''f-1'' 0 ''p-1''
       demo_world
     = (Inr [1, 2], record_call (Send demo_request (Inr (answer 200 [1, 2] ''''))) demo_world)
   \<and> raises_retryable
       (fetch_once (demo_client (always (answer 503 [] ''busy''))) demo_request demo_world)"
proof -
  have req: "build_get_page_screenshot_request (demo_client t) ''f-1'' 0 ''p-1''
      = demo_request" for t
    by (simp add: build_get_page_screenshot_request_def demo_request_def demo_client_def)
  have sent: "httpx_client_send (demo_client (always resp)) (trace demo_world) demo_request
      = Inr resp" for resp
    by (simp add: demo_client_def always_def)
  have st: "status_code (answer n bytes msg) = n" "content (answer n bytes msg) = bytes"
    "text_of (answer n bytes msg) = msg" for n bytes msg
    by (simp_all add: answer_def)
  note conv = fetch_status_conversion [where w = demo_world and req = demo_request
      and file_id = "''f-1''" and page_index = 0 and project_id = "''p-1''"
      and figure_name = "''fig''"]
  from conv [where c = "demo_client (always (answer 404 [] ''missing''))"
      and resp = "answer 404 [] ''missing''"]
  have a: "get_page_screenshot (demo_client (always (answer 404 [] ''missing''))) ''f-1'' 0
       ''p-1'' demo_world
     = (Inl (ApiError 404 ''missing''),
        record_call (Send demo_request (Inr (answer 404 [] ''missing''))) demo_world)"
    by (simp add: req sent st)
  from conv [where c = "demo_client (always (answer 200 [1, 2] ''''))"
      and resp = "answer 200 [1, 2] ''''"]
  have b: "aget_page_screenshot (demo_client (always (answer 200 [1, 2] ''''))) ''f-1'' 0
       ''p-1'' demo_world
     = (Inr [1, 2], record_call (Send demo_request (Inr (answer 200 [1, 2] ''''))) demo_world)"
    by (simp add: req sent st)
  from conv [where c = "demo_client (always (answer 503 [] ''busy''))"
      and resp = "answer 503 [] ''busy''"]
  have c: "raises_retryable
       (fetch_once (demo_client (always (answer 503 [] ''busy''))) demo_request demo_world)"
    by (simp add: sent st raises_retryable_def is_retryable_http_error_def)
  from a b c show ?thesis by simp
qed

section \<open>Properties of the result adapter\<close>

text \<open>
  Claim C9. Each of the four conversions and of the two legacy aliases, given an absent or
  an empty list, returns the empty list and leaves the world as it was: nothing is fetched.
\<close>

theorem empty_input_short_circuit:
  "page_screenshot_nodes_to_node_with_score c None project_id w = (Inr [], w)
   \<and> page_screenshot_nodes_to_node_with_score c (Some []) project_id w = (Inr [], w)
   \<and> page_figure_nodes_to_node_with_score c None project_id w = (Inr [], w)
   \<and> page_figure_nodes_to_node_with_score c (Some []) project_id w = (Inr [], w)
   \<and> apage_screenshot_nodes_to_node_with_score c None project_id w = (Inr [], w)
   \<and> apage_screenshot_nodes_to_node_with_score c (Some []) project_id w = (Inr [], w)
   \<and> apage_figure_nodes_to_node_with_score c None project_id w = (Inr [], w)
   \<and> apage_figure_nodes_to_node_with_score c (Some []) project_id w = (Inr [], w)
   \<and> image_nodes_to_node_with_score c None project_id w = (Inr [], w)
   \<and> image_nodes_to_node_with_score c (Some []) project_id w = (Inr [], w)
   \<and> aimage_nodes_to_node_with_score c None project_id w = (Inr [], w)
   \<and> aimage_nodes_to_node_with_score c (Some []) project_id w = (Inr [], w)"
  by (simp add: page_screenshot_nodes_to_node_with_score_def
        page_figure_nodes_to_node_with_score_def apage_screenshot_nodes_to_node_with_score_def
        apage_figure_nodes_to_node_with_score_def image_nodes_to_node_with_score_def
        aimage_nodes_to_node_with_score_def)


text \<open>
  What a fetch leaves in the record of calls: one attempt adds the request it sent with the
  answer it got, and a retried fetch that returns bytes ends with a sent request whose
  answer has a 2xx status and those bytes as content.
\<close>

lemma growsD: "grows job \<Longrightarrow> job w = (r, w') \<Longrightarrow> \<exists>ys. trace w' = trace w @ ys"
  by (auto simp: grows_def dest: spec [of _ w])

lemma fetch_once_trace:
  "fetch_once c req w = (r, w') \<Longrightarrow>
   trace w' = trace w @ [Send req (httpx_client_send c (trace w) req)]"
  by (auto simp: fetch_once_def send_def record_call_def Let_def
      split: sum.splits if_splits)

lemma fetch_once_Inr:
  "fetch_once c req w = (Inr b, w') \<Longrightarrow>
   \<exists>resp. httpx_client_send c (trace w) req = Inr resp
     \<and> 200 \<le> status_code resp \<and> status_code resp < 300 \<and> content resp = b"
  by (auto simp: fetch_once_def send_def Let_def split: sum.splits if_splits)

lemma after_attempts_trace:
  "\<exists>ys. trace (after_attempts (fetch_once c req) k w) = trace w @ ys"
proof (induction k arbitrary: w)
  case 0
  show ?case by simp
next
  case (Suc k)
  obtain r w1 where step: "fetch_once c req w = (r, w1)"
    by (cases "fetch_once c req w")
  from Suc [of w1] obtain ys where "trace (after_attempts (fetch_once c req) k w1) = trace w1 @ ys"
    by blast
  with step fetch_once_trace [OF step] show ?case by simp
qed

lemma retry_fetch_last_attempt:
  "\<exists>n. retry_on_failure (fetch_once c req) w
     = fetch_once c req (after_attempts (fetch_once c req) n w)"
  using retrying_outcome [of 5 1 "fetch_once c req" w]
  by (auto simp: retry_on_failure_def attempt_outcome_def)

lemma retry_fetch_grows:
  assumes "retry_on_failure (fetch_once c req) w = (r, w')"
  shows "\<exists>ys. trace w' = trace w @ ys"
proof -
  from retry_fetch_last_attempt [of c req w] assms obtain n
    where last: "fetch_once c req (after_attempts (fetch_once c req) n w) = (r, w')"
    by auto
  from after_attempts_trace [of c req n w] obtain ys
    where "trace (after_attempts (fetch_once c req) n w) = trace w @ ys"
    by blast
  with fetch_once_trace [OF last] show ?thesis by simp
qed

lemma retry_fetch_Inr:
  assumes "retry_on_failure (fetch_once c req) w = (Inr b, w')"
  shows "\<exists>ys resp. trace w' = trace w @ ys @ [Send req (Inr resp)]
     \<and> 200 \<le> status_code resp \<and> status_code resp < 300 \<and> content resp = b"
proof -
  from retry_fetch_last_attempt [of c req w] assms obtain n
    where last: "fetch_once c req (after_attempts (fetch_once c req) n w) = (Inr b, w')"
    by auto
  from after_attempts_trace [of c req n w] obtain ys
    where ys: "trace (after_attempts (fetch_once c req) n w) = trace w @ ys"
    by blast
  from fetch_once_Inr [OF last] obtain resp
    where "httpx_client_send c (trace (after_attempts (fetch_once c req) n w)) req = Inr resp"
      and "200 \<le> status_code resp" and "status_code resp < 300" and "content resp = b"
    by blast
  with fetch_once_trace [OF last] ys show ?thesis by auto
qed

lemma set_without_nth:
  "k < length xs \<Longrightarrow> set xs = insert (xs ! k) (set (take k xs @ drop (Suc k) xs))"
proof -
  assume "k < length xs"
  then have "xs = take k xs @ xs ! k # drop (Suc k) xs"
    by (rule id_take_nth_drop)
  then have "set xs = set (take k xs @ xs ! k # drop (Suc k) xs)"
    by simp
  then show ?thesis by simp
qed

lemma run_pending_results:
  assumes "run_pending pending finished w = (Inr res, w')"
    and "\<forall>p\<in>set pending. grows (snd p)"
  shows "(\<exists>ys. trace w' = trace w @ ys)
    \<and> fst ` set res = fst ` set finished \<union> fst ` set pending
    \<and> (\<forall>i v. (i, v) \<in> set res \<longrightarrow> (i, v) \<in> set finished
          \<or> (\<exists>job w1 w2 ys zs. (i, job) \<in> set pending \<and> job w1 = (Inr v, w2)
                \<and> trace w1 = trace w @ ys \<and> trace w' = trace w2 @ zs))"
  using assms
proof (induction "length pending" arbitrary: pending finished w)
  case 0
  then have "pending = []" by simp
  with "0.prems"(1) show ?case
    by (simp add: run_pending.simps)
next
  case (Suc n)
  then have ne: "pending \<noteq> []" by auto
  define k where "k = (case schedule w of [] \<Rightarrow> 0 | x # _ \<Rightarrow> x mod length pending)"
  define w0 where "w0 = w\<lparr>schedule := tl (schedule w)\<rparr>"
  from ne have k: "k < length pending"
    by (simp add: k_def split: list.splits)
  obtain i job where ij: "pending ! k = (i, job)"
    by (cases "pending ! k")
  from k ij have mem: "(i, job) \<in> set pending"
    by (metis nth_mem)
  define rest where "rest = take k pending @ drop (Suc k) pending"
  from Suc.prems(1) ne ij obtain v w1
    where ran: "job w0 = (Inr v, w1)"
      and rec: "run_pending rest (finished @ [(i, v)]) w1 = (Inr res, w')"
    by (subst (asm) run_pending.simps)
       (auto simp: k_def [symmetric] w0_def [symmetric] rest_def Let_def
          split: prod.splits sum.splits)
  from Suc.prems(2) mem have "grows job" by auto
  from growsD [OF this ran] obtain ys0 where ys0: "trace w1 = trace w @ ys0"
    by (auto simp: w0_def)
  have len: "n = length rest"
    using Suc.hyps(2) k by (simp add: rest_def)
  have split: "set pending = insert (i, job) (set rest)"
    using set_without_nth [OF k] ij by (simp add: rest_def)
  then have sub: "set rest \<subseteq> set pending"
    by auto
  have mono: "\<forall>p\<in>set rest. grows (snd p)"
    using Suc.prems(2) sub by blast
  from Suc.hyps(1) [OF len rec mono]
  have grows: "\<exists>ys. trace w' = trace w1 @ ys"
    and keys: "fst ` set res = fst ` set (finished @ [(i, v)]) \<union> fst ` set rest"
    and vals: "\<forall>i' v'. (i', v') \<in> set res \<longrightarrow> (i', v') \<in> set (finished @ [(i, v)])
          \<or> (\<exists>job w1' w2 ys zs. (i', job) \<in> set rest \<and> job w1' = (Inr v', w2)
                \<and> trace w1' = trace w1 @ ys \<and> trace w' = trace w2 @ zs)"
    by blast+
  from grows obtain zs0 where zs0: "trace w' = trace w1 @ zs0" by blast
  have "\<exists>ys. trace w' = trace w @ ys"
    using ys0 zs0 by simp
  moreover have "fst ` set res = fst ` set finished \<union> fst ` set pending"
  proof -
    have "fst ` set pending = insert i (fst ` set rest)"
      by (simp add: split)
    with keys show ?thesis by auto
  qed
  moreover have "\<forall>i' v'. (i', v') \<in> set res \<longrightarrow> (i', v') \<in> set finished
          \<or> (\<exists>job w1 w2 ys zs. (i', job) \<in> set pending \<and> job w1 = (Inr v', w2)
                \<and> trace w1 = trace w @ ys \<and> trace w' = trace w2 @ zs)"
  proof (intro allI impI)
    fix i' v' assume "(i', v') \<in> set res"
    with vals have "(i', v') \<in> set (finished @ [(i, v)])
          \<or> (\<exists>job w1' w2 ys zs. (i', job) \<in> set rest \<and> job w1' = (Inr v', w2)
                \<and> trace w1' = trace w1 @ ys \<and> trace w' = trace w2 @ zs)"
      by blast
    then show "(i', v') \<in> set finished
          \<or> (\<exists>job w1 w2 ys zs. (i', job) \<in> set pending \<and> job w1 = (Inr v', w2)
                \<and> trace w1 = trace w @ ys \<and> trace w' = trace w2 @ zs)"
    proof (elim disjE exE conjE)
      assume "(i', v') \<in> set (finished @ [(i, v)])"
      then have "(i', v') \<in> set finished \<or> (i' = i \<and> v' = v)" by auto
      moreover have "trace w0 = trace w @ []" by (simp add: w0_def)
      ultimately show ?thesis using mem ran zs0 by blast
    next
      fix job' w1' w2 ys zs
      assume a: "(i', job') \<in> set rest" "job' w1' = (Inr v', w2)"
        "trace w1' = trace w1 @ ys" "trace w' = trace w2 @ zs"
      from a(3) ys0 have "trace w1' = trace w @ (ys0 @ ys)" by simp
      with a(1,2,4) sub show ?thesis by blast
    qed
  qed
  ultimately show ?case by blast
qed

lemma map_filter_all_defined:
  "\<forall>x\<in>set xs. f x \<noteq> None \<Longrightarrow> List.map_filter f xs = map (\<lambda>x. the (f x)) xs"
  by (simp add: List.map_filter_def comp_def)

lemma in_zip_upt:
  "(i, x) \<in> set (zip [0..<length xs] xs) \<Longrightarrow> i < length xs \<and> x = xs ! i"
  by (auto simp: in_set_zip)

lemma run_jobs_results:
  assumes run: "run_jobs jobs w = (Inr vs, w')"
    and mono: "\<forall>job\<in>set jobs. grows job"
  shows "length vs = length jobs
    \<and> (\<forall>i<length jobs. \<exists>w1 w2 ys zs. (jobs ! i) w1 = (Inr (vs ! i), w2)
          \<and> trace w1 = trace w @ ys \<and> trace w' = trace w2 @ zs)"
proof -
  let ?n = "length jobs"
  let ?pending = "zip [0..<?n] jobs"
  from run obtain res where rp: "run_pending ?pending [] w = (Inr res, w')"
    and vs: "vs = List.map_filter (map_of res) [0..<?n]"
    by (auto simp: run_jobs_def split: prod.splits sum.splits)
  have "\<forall>p\<in>set ?pending. grows (snd p)"
    using mono by (auto dest: set_zip_rightD)
  from run_pending_results [OF rp this]
  have keys: "fst ` set res = fst ` set ?pending"
    and vals: "\<forall>i v. (i, v) \<in> set res \<longrightarrow>
          (\<exists>job w1 w2 ys zs. (i, job) \<in> set ?pending \<and> job w1 = (Inr v, w2)
                \<and> trace w1 = trace w @ ys \<and> trace w' = trace w2 @ zs)"
    by auto
  have fsts: "map fst ?pending = [0..<?n]" by simp
  have "fst ` set ?pending = set (map fst ?pending)" by (simp only: set_map)
  also have "\<dots> = {0..<?n}" by (simp only: fsts set_upt)
  finally have dom: "fst ` set res = {0..<?n}" using keys by simp
  have defined: "\<forall>i\<in>set [0..<?n]. map_of res i \<noteq> None"
    using dom by (simp add: map_of_eq_None_iff)
  then have vs': "vs = map (\<lambda>i. the (map_of res i)) [0..<?n]"
    unfolding vs by (rule map_filter_all_defined)
  then have len: "length vs = ?n" by simp
  have "\<exists>w1 w2 ys zs. (jobs ! i) w1 = (Inr (vs ! i), w2)
          \<and> trace w1 = trace w @ ys \<and> trace w' = trace w2 @ zs" if i: "i < ?n" for i
  proof -
    from i have "i \<in> set [0..<?n]" by simp
    with defined have "map_of res i \<noteq> None" by blast
    then obtain v where v: "map_of res i = Some v" by blast
    with vs' i have "vs ! i = v" by simp
    moreover from v have "(i, v) \<in> set res" by (rule map_of_SomeD)
    with vals obtain job w1 w2 ys zs where "(i, job) \<in> set ?pending"
      and "job w1 = (Inr v, w2)" and "trace w1 = trace w @ ys" and "trace w' = trace w2 @ zs"
      by blast
    moreover from this(1) have "job = jobs ! i" by (auto dest: in_zip_upt)
    ultimately show ?thesis by blast
  qed
  with len show ?thesis by blast
qed

lemma grows_retry_fetch: "grows (retry_on_failure (fetch_once c req))"
  unfolding grows_def
proof
  fix w
  obtain r w' where "retry_on_failure (fetch_once c req) w = (r, w')"
    by (cases "retry_on_failure (fetch_once c req) w")
  with retry_fetch_grows [OF this] show "\<exists>ys. trace (snd (retry_on_failure (fetch_once c req) w)) = trace w @ ys"
    by simp
qed

lemma fetch_jobs_results:
  assumes run: "run_jobs (map (\<lambda>req. retry_on_failure (fetch_once c req)) reqs) w = (Inr bs, w')"
  shows "length bs = length reqs
    \<and> (\<forall>i<length reqs. \<exists>resp. Send (reqs ! i) (Inr resp) \<in> set (new_events w w')
          \<and> 200 \<le> status_code resp \<and> status_code resp < 300 \<and> content resp = bs ! i)"
proof -
  let ?jobs = "map (\<lambda>req. retry_on_failure (fetch_once c req)) reqs"
  have "\<forall>job\<in>set ?jobs. grows job"
    by (auto simp: grows_retry_fetch)
  from run_jobs_results [OF run this]
  have len: "length bs = length reqs"
    and each: "\<forall>i<length reqs. \<exists>w1 w2 ys zs. (?jobs ! i) w1 = (Inr (bs ! i), w2)
          \<and> trace w1 = trace w @ ys \<and> trace w' = trace w2 @ zs"
    by auto
  have "\<exists>resp. Send (reqs ! i) (Inr resp) \<in> set (new_events w w')
          \<and> 200 \<le> status_code resp \<and> status_code resp < 300 \<and> content resp = bs ! i"
    if i: "i < length reqs" for i
  proof -
    from each i obtain w1 w2 ys zs
      where job: "retry_on_failure (fetch_once c (reqs ! i)) w1 = (Inr (bs ! i), w2)"
        and before: "trace w1 = trace w @ ys" and after: "trace w' = trace w2 @ zs"
      by auto
    from retry_fetch_Inr [OF job] obtain ys' resp
      where sent: "trace w2 = trace w1 @ ys' @ [Send (reqs ! i) (Inr resp)]"
        and ok: "200 \<le> status_code resp" "status_code resp < 300" "content resp = bs ! i"
      by blast
    from before sent after
    have "new_events w w' = ys @ ys' @ [Send (reqs ! i) (Inr resp)] @ zs"
      by (simp add: new_events_def)
    then have "Send (reqs ! i) (Inr resp) \<in> set (new_events w w')"
      by simp
    with ok show ?thesis by blast
  qed
  with len show ?thesis by blast
qed

text \<open>
  Claim C2. When the asynchronous conversion of a non-empty list returns, whatever order the
  event loop ran the fetches in: the output has the length of the input, and for every
  position \<open>i\<close> there is a 2xx answer, received during this call to the request built from
  record \<open>i\<close>, such that node \<open>i\<close> carries the base64 encoding of that answer's bytes,
  the metadata of record \<open>i\<close> (empty when absent) overlaid with the derived keys, which win
  where a key is already present, and the score of record \<open>i\<close>. The same holds for figure
  records, with \<open>figure_name\<close> among the derived keys.
\<close>

theorem apage_nodes_in_input_order:
  "(raws \<noteq> []
      \<and> apage_screenshot_nodes_to_node_with_score c (Some raws) project_id w = (Inr nodes, w')
    \<longrightarrow> length nodes = length raws
      \<and> (\<forall>i<length raws. \<exists>resp.
            Send (build_get_page_screenshot_request c (s_file_id (s_node (raws ! i)))
                    (s_page_index (s_node (raws ! i))) project_id) (Inr resp)
              \<in> set (new_events w w')
            \<and> 200 \<le> status_code resp \<and> status_code resp \<le> 299
            \<and> image (node (nodes ! i)) = b64encode (content resp)
            \<and> metadata (node (nodes ! i)) =
                or_empty (s_metadata (s_node (raws ! i)))
                  ++ [''file_id'' \<mapsto> PyStr (s_file_id (s_node (raws ! i))),
                      ''page_index'' \<mapsto> PyInt (s_page_index (s_node (raws ! i)))]
            \<and> score (nodes ! i) = s_score (raws ! i)))
   \<and> (fraws \<noteq> []
      \<and> apage_figure_nodes_to_node_with_score c (Some fraws) project_id w = (Inr fnodes, fw')
    \<longrightarrow> length fnodes = length fraws
      \<and> (\<forall>i<length fraws. \<exists>resp.
            Send (build_get_page_figure_request c (f_file_id (f_node (fraws ! i)))
                    (f_page_index (f_node (fraws ! i))) (f_figure_name (f_node (fraws ! i)))
                    project_id) (Inr resp)
              \<in> set (new_events w fw')
            \<and> 200 \<le> status_code resp \<and> status_code resp \<le> 299
            \<and> image (node (fnodes ! i)) = b64encode (content resp)
            \<and> metadata (node (fnodes ! i)) =
                or_empty (f_metadata (f_node (fraws ! i)))
                  ++ [''file_id'' \<mapsto> PyStr (f_file_id (f_node (fraws ! i))),
                      ''page_index'' \<mapsto> PyInt (f_page_index (f_node (fraws ! i))),
                      ''figure_name'' \<mapsto> PyStr (f_figure_name (f_node (fraws ! i)))]
            \<and> score (fnodes ! i) = f_score (fraws ! i)))"
proof (intro conjI impI)
  assume a: "raws \<noteq> []
      \<and> apage_screenshot_nodes_to_node_with_score c (Some raws) project_id w = (Inr nodes, w')"
  let ?req = "\<lambda>raw. build_get_page_screenshot_request c (s_file_id (s_node raw))
                    (s_page_index (s_node raw)) project_id"
  have tasks: "map (\<lambda>raw. aget_page_screenshot c (s_file_id (s_node raw))
                    (s_page_index (s_node raw)) project_id) raws
      = map (\<lambda>req. retry_on_failure (fetch_once c req)) (map ?req raws)"
    by (simp add: aget_page_screenshot_def)
  from a obtain bs
    where run: "run_jobs (map (\<lambda>req. retry_on_failure (fetch_once c req)) (map ?req raws)) w
        = (Inr bs, w')"
      and nodes: "nodes = map (\<lambda>(image_bytes, raw). screenshot_node_with_score raw image_bytes)
          (zip bs raws)"
    by (auto simp: apage_screenshot_nodes_to_node_with_score_def tasks Let_def
        split: prod.splits sum.splits)
  from fetch_jobs_results [OF run]
  have len: "length bs = length raws"
    and each: "\<forall>i<length raws. \<exists>resp. Send (?req (raws ! i)) (Inr resp) \<in> set (new_events w w')
          \<and> 200 \<le> status_code resp \<and> status_code resp < 300 \<and> content resp = bs ! i"
    by auto
  from len nodes show "length nodes = length raws" by simp
  show "\<forall>i<length raws. \<exists>resp.
            Send (build_get_page_screenshot_request c (s_file_id (s_node (raws ! i)))
                    (s_page_index (s_node (raws ! i))) project_id) (Inr resp)
              \<in> set (new_events w w')
            \<and> 200 \<le> status_code resp \<and> status_code resp \<le> 299
            \<and> image (node (nodes ! i)) = b64encode (content resp)
            \<and> metadata (node (nodes ! i)) =
                or_empty (s_metadata (s_node (raws ! i)))
                  ++ [''file_id'' \<mapsto> PyStr (s_file_id (s_node (raws ! i))),
                      ''page_index'' \<mapsto> PyInt (s_page_index (s_node (raws ! i)))]
            \<and> score (nodes ! i) = s_score (raws ! i)"
  proof (intro allI impI)
    fix i assume i: "i < length raws"
    with each obtain resp
      where sent: "Send (?req (raws ! i)) (Inr resp) \<in> set (new_events w w')"
        and ok: "200 \<le> status_code resp" "status_code resp < 300"
        and bytes: "content resp = bs ! i"
      by blast
    from i len nodes have "nodes ! i = screenshot_node_with_score (raws ! i) (bs ! i)"
      by simp
    with sent ok bytes show "\<exists>resp.
            Send (build_get_page_screenshot_request c (s_file_id (s_node (raws ! i)))
                    (s_page_index (s_node (raws ! i))) project_id) (Inr resp)
              \<in> set (new_events w w')
            \<and> 200 \<le> status_code resp \<and> status_code resp \<le> 299
            \<and> image (node (nodes ! i)) = b64encode (content resp)
            \<and> metadata (node (nodes ! i)) =
                or_empty (s_metadata (s_node (raws ! i)))
                  ++ [''file_id'' \<mapsto> PyStr (s_file_id (s_node (raws ! i))),
                      ''page_index'' \<mapsto> PyInt (s_page_index (s_node (raws ! i)))]
            \<and> score (nodes ! i) = s_score (raws ! i)"
      by (intro exI [of _ resp]) (simp add: screenshot_node_with_score_def)
  qed
next
  assume a: "fraws \<noteq> []
      \<and> apage_figure_nodes_to_node_with_score c (Some fraws) project_id w = (Inr fnodes, fw')"
  let ?req = "\<lambda>raw. build_get_page_figure_request c (f_file_id (f_node raw))
                    (f_page_index (f_node raw)) (f_figure_name (f_node raw)) project_id"
  have tasks: "map (\<lambda>raw. aget_page_figure c (f_file_id (f_node raw))
                    (f_page_index (f_node raw)) (f_figure_name (f_node raw)) project_id) fraws
      = map (\<lambda>req. retry_on_failure (fetch_once c req)) (map ?req fraws)"
    by (simp add: aget_page_figure_def)
  from a obtain bs
    where run: "run_jobs (map (\<lambda>req. retry_on_failure (fetch_once c req)) (map ?req fraws)) w
        = (Inr bs, fw')"
      and nodes: "fnodes = map (\<lambda>(figure_bytes, raw). figure_node_with_score raw figure_bytes)
          (zip bs fraws)"
    by (auto simp: apage_figure_nodes_to_node_with_score_def tasks Let_def
        split: prod.splits sum.splits)
  from fetch_jobs_results [OF run]
  have len: "length bs = length fraws"
    and each: "\<forall>i<length fraws. \<exists>resp. Send (?req (fraws ! i)) (Inr resp)
            \<in> set (new_events w fw')
          \<and> 200 \<le> status_code resp \<and> status_code resp < 300 \<and> content resp = bs ! i"
    by auto
  from len nodes show "length fnodes = length fraws" by simp
  show "\<forall>i<length fraws. \<exists>resp.
            Send (build_get_page_figure_request c (f_file_id (f_node (fraws ! i)))
                    (f_page_index (f_node (fraws ! i))) (f_figure_name (f_node (fraws ! i)))
                    project_id) (Inr resp)
              \<in> set (new_events w fw')
            \<and> 200 \<le> status_code resp \<and> status_code resp \<le> 299
            \<and> image (node (fnodes ! i)) = b64encode (content resp)
            \<and> metadata (node (fnodes ! i)) =
                or_empty (f_metadata (f_node (fraws ! i)))
                  ++ [''file_id'' \<mapsto> PyStr (f_file_id (f_node (fraws ! i))),
                      ''page_index'' \<mapsto> PyInt (f_page_index (f_node (fraws ! i))),
                      ''figure_name'' \<mapsto> PyStr (f_figure_name (f_node (fraws ! i)))]
            \<and> score (fnodes ! i) = f_score (fraws ! i)"
  proof (intro allI impI)
    fix i assume i: "i < length fraws"
    with each obtain resp
      where sent: "Send (?req (fraws ! i)) (Inr resp) \<in> set (new_events w fw')"
        and ok: "200 \<le> status_code resp" "status_code resp < 300"
        and bytes: "content resp = bs ! i"
      by blast
    from i len nodes have "fnodes ! i = figure_node_with_score (fraws ! i) (bs ! i)"
      by simp
    with sent ok bytes show "\<exists>resp.
            Send (build_get_page_figure_request c (f_file_id (f_node (fraws ! i)))
                    (f_page_index (f_node (fraws ! i))) (f_figure_name (f_node (fraws ! i)))
                    project_id) (Inr resp)
              \<in> set (new_events w fw')
            \<and> 200 \<le> status_code resp \<and> status_code resp \<le> 299
            \<and> image (node (fnodes ! i)) = b64encode (content resp)
            \<and> metadata (node (fnodes ! i)) =
                or_empty (f_metadata (f_node (fraws ! i)))
                  ++ [''file_id'' \<mapsto> PyStr (f_file_id (f_node (fraws ! i))),
                      ''page_index'' \<mapsto> PyInt (f_page_index (f_node (fraws ! i))),
                      ''figure_name'' \<mapsto> PyStr (f_figure_name (f_node (fraws ! i)))]
            \<and> score (fnodes ! i) = f_score (fraws ! i)"
      by (intro exI [of _ resp]) (simp add: figure_node_with_score_def)
  qed
qed

text \<open>
  An instance with two records of each kind. The second job runs first and is retried once;
  the nodes still come out in the order of the records, and the stale \<open>file_id\<close> and
  \<open>figure_name\<close> of the source metadata are overwritten.
\<close>

lemma demo_screen_run:
  "apage_screenshot_nodes_to_node_with_score (demo_client serve) (Some demo_screens) ''p-1''
       demo_world
     = (Inr demo_screen_nodes, demo_screen_world)"
  by (simp add: apage_screenshot_nodes_to_node_with_score_def demo_screens_def run_jobs_def
        run_pending.simps aget_page_screenshot_def retry_on_failure_def retrying.simps
        fetch_once_def send_def record_call_def demo_world_def demo_client_def serve_def
        answer_def is_retryable_http_error_def screen_request_def demo_screen_nodes_def
        demo_screen_world_def
        build_get_page_screenshot_request_def List.map_filter_def Let_def upt_rec)

lemma demo_figure_run:
  "apage_figure_nodes_to_node_with_score (demo_client serve) (Some demo_figures) ''p-1''
       demo_world
     = (Inr demo_figure_nodes, demo_figure_world)"
  by (simp add: apage_figure_nodes_to_node_with_score_def demo_figures_def run_jobs_def
        run_pending.simps aget_page_figure_def retry_on_failure_def retrying.simps
        fetch_once_def send_def record_call_def demo_world_def demo_client_def serve_def
        answer_def is_retryable_http_error_def figure_request_def demo_figure_nodes_def
        demo_figure_world_def
        build_get_page_figure_request_def List.map_filter_def Let_def upt_rec)

theorem apage_nodes_in_input_order_witness:
  "apage_screenshot_nodes_to_node_with_score (demo_client serve) (Some demo_screens) ''p-1''
       demo_world
     = (Inr demo_screen_nodes, demo_screen_world)
   \<and> length demo_screen_nodes = 2
   \<and> (\<exists>resp. Send (screen_request ''f-2'' 1) (Inr resp)
               \<in> set (new_events demo_world demo_screen_world)
        \<and> image (node (demo_screen_nodes ! 1)) = b64encode (content resp))
   \<and> metadata (node (demo_screen_nodes ! 1)) ''file_id'' = Some (PyStr ''f-2'')
   \<and> metadata (node (demo_screen_nodes ! 1)) ''lang'' = Some (PyStr ''en'')
   \<and> score (demo_screen_nodes ! 1) = 1 / 4
   \<and> apage_figure_nodes_to_node_with_score (demo_client serve) (Some demo_figures) ''p-1''
       demo_world
     = (Inr demo_figure_nodes, demo_figure_world)
   \<and> length demo_figure_nodes = 2
   \<and> (\<exists>resp. Send (figure_request ''f-1'' 2 ''chart'') (Inr resp)
               \<in> set (new_events demo_world demo_figure_world)
        \<and> image (node (demo_figure_nodes ! 0)) = b64encode (content resp))
   \<and> metadata (node (demo_figure_nodes ! 0)) ''figure_name'' = Some (PyStr ''chart'')
   \<and> score (demo_figure_nodes ! 0) = 3 / 4"
proof -
  note order = apage_nodes_in_input_order
    [where c = "demo_client serve" and project_id = "''p-1''" and w = demo_world
       and raws = demo_screens and nodes = demo_screen_nodes and w' = demo_screen_world
       and fraws = demo_figures and fnodes = demo_figure_nodes and fw' = demo_figure_world]
  have ne: "demo_screens \<noteq> []" "demo_figures \<noteq> []"
    by (simp_all add: demo_screens_def demo_figures_def)
  have len: "length demo_screens = 2" "length demo_figures = 2"
    by (simp_all add: demo_screens_def demo_figures_def)
  from order ne(1) demo_screen_run
  have screens: "length demo_screen_nodes = length demo_screens"
    "\<forall>i<length demo_screens. \<exists>resp.
        Send (build_get_page_screenshot_request (demo_client serve)
                (s_file_id (s_node (demo_screens ! i)))
                (s_page_index (s_node (demo_screens ! i))) ''p-1'') (Inr resp)
          \<in> set (new_events demo_world demo_screen_world)
        \<and> 200 \<le> status_code resp \<and> status_code resp \<le> 299
        \<and> image (node (demo_screen_nodes ! i)) = b64encode (content resp)
        \<and> metadata (node (demo_screen_nodes ! i)) =
            or_empty (s_metadata (s_node (demo_screens ! i)))
              ++ [''file_id'' \<mapsto> PyStr (s_file_id (s_node (demo_screens ! i))),
                  ''page_index'' \<mapsto> PyInt (s_page_index (s_node (demo_screens ! i)))]
        \<and> score (demo_screen_nodes ! i) = s_score (demo_screens ! i)"
    by blast+
  from order ne(2) demo_figure_run
  have figures: "length demo_figure_nodes = length demo_figures"
    "\<forall>i<length demo_figures. \<exists>resp.
        Send (build_get_page_figure_request (demo_client serve)
                (f_file_id (f_node (demo_figures ! i)))
                (f_page_index (f_node (demo_figures ! i)))
                (f_figure_name (f_node (demo_figures ! i))) ''p-1'') (Inr resp)
          \<in> set (new_events demo_world demo_figure_world)
        \<and> 200 \<le> status_code resp \<and> status_code resp \<le> 299
        \<and> image (node (demo_figure_nodes ! i)) = b64encode (content resp)
        \<and> metadata (node (demo_figure_nodes ! i)) =
            or_empty (f_metadata (f_node (demo_figures ! i)))
              ++ [''file_id'' \<mapsto> PyStr (f_file_id (f_node (demo_figures ! i))),
                  ''page_index'' \<mapsto> PyInt (f_page_index (f_node (demo_figures ! i))),
                  ''figure_name'' \<mapsto> PyStr (f_figure_name (f_node (demo_figures ! i)))]
        \<and> score (demo_figure_nodes ! i) = f_score (demo_figures ! i)"
    by blast+
  have second: "s_node (demo_screens ! Suc 0) = \<lparr>s_file_id = ''f-2'', s_page_index = 1,
        s_metadata = Some [''file_id'' \<mapsto> PyStr ''stale'', ''lang'' \<mapsto> PyStr ''en'']\<rparr>"
    "s_score (demo_screens ! Suc 0) = 1 / 4"
    by (simp_all add: demo_screens_def)
  have first: "f_node (demo_figures ! 0) = \<lparr>f_file_id = ''f-1'', f_page_index = 2,
        f_figure_name = ''chart'', f_metadata = Some [''figure_name'' \<mapsto> PyStr ''stale'']\<rparr>"
    "f_score (demo_figures ! 0) = 3 / 4"
    by (simp_all add: demo_figures_def)
  from screens(2) len(1) have "\<exists>resp.
        Send (build_get_page_screenshot_request (demo_client serve)
                (s_file_id (s_node (demo_screens ! 1)))
                (s_page_index (s_node (demo_screens ! 1))) ''p-1'') (Inr resp)
          \<in> set (new_events demo_world demo_screen_world)
        \<and> 200 \<le> status_code resp \<and> status_code resp \<le> 299
        \<and> image (node (demo_screen_nodes ! 1)) = b64encode (content resp)
        \<and> metadata (node (demo_screen_nodes ! 1)) =
            or_empty (s_metadata (s_node (demo_screens ! 1)))
              ++ [''file_id'' \<mapsto> PyStr (s_file_id (s_node (demo_screens ! 1))),
                  ''page_index'' \<mapsto> PyInt (s_page_index (s_node (demo_screens ! 1)))]
        \<and> score (demo_screen_nodes ! 1) = s_score (demo_screens ! 1)"
    by simp
  then have a: "(\<exists>resp. Send (screen_request ''f-2'' 1) (Inr resp)
               \<in> set (new_events demo_world demo_screen_world)
        \<and> image (node (demo_screen_nodes ! 1)) = b64encode (content resp))
   \<and> metadata (node (demo_screen_nodes ! 1)) ''file_id'' = Some (PyStr ''f-2'')
   \<and> metadata (node (demo_screen_nodes ! 1)) ''lang'' = Some (PyStr ''en'')
   \<and> score (demo_screen_nodes ! 1) = 1 / 4"
    by (auto simp: second screen_request_def or_empty_def)
  from figures(2) len(2) have "\<exists>resp.
        Send (build_get_page_figure_request (demo_client serve)
                (f_file_id (f_node (demo_figures ! 0)))
                (f_page_index (f_node (demo_figures ! 0)))
                (f_figure_name (f_node (demo_figures ! 0))) ''p-1'') (Inr resp)
          \<in> set (new_events demo_world demo_figure_world)
        \<and> 200 \<le> status_code resp \<and> status_code resp \<le> 299
        \<and> image (node (demo_figure_nodes ! 0)) = b64encode (content resp)
        \<and> metadata (node (demo_figure_nodes ! 0)) =
            or_empty (f_metadata (f_node (demo_figures ! 0)))
              ++ [''file_id'' \<mapsto> PyStr (f_file_id (f_node (demo_figures ! 0))),
                  ''page_index'' \<mapsto> PyInt (f_page_index (f_node (demo_figures ! 0))),
                  ''figure_name'' \<mapsto> PyStr (f_figure_name (f_node (demo_figures ! 0)))]
        \<and> score (demo_figure_nodes ! 0) = f_score (demo_figures ! 0)"
    by simp
  then have b: "(\<exists>resp. Send (figure_request ''f-1'' 2 ''chart'') (Inr resp)
               \<in> set (new_events demo_world demo_figure_world)
        \<and> image (node (demo_figure_nodes ! 0)) = b64encode (content resp))
   \<and> metadata (node (demo_figure_nodes ! 0)) ''figure_name'' = Some (PyStr ''chart'')
   \<and> score (demo_figure_nodes ! 0) = 3 / 4"
    by (auto simp: first figure_request_def or_empty_def)
  from demo_screen_run demo_figure_run screens(1) figures(1) len a b show ?thesis
    by simp
qed

end
